theory Spec2Isabelle
  imports Complex_Main "HOL-Library.Char_ord" "HOL-Library.List_Lexorder"
begin

section \<open>Numbers, columns and frames\<close>

text \<open>
  The notebook \<^verbatim>\<open>Proj_2.ipynb\<close> keeps its data in pandas frames of 64-bit floats.
  A cell is modelled by its exact value: every finite float is a rational number, and
  the three special values are kept apart.  Rounding and the sign of zero are not
  modelled; a zero divisor is the \<^verbatim>\<open>0\<close> that \<^verbatim>\<open>read_csv\<close> parses, so a
  positive dividend over it is \<^verbatim>\<open>inf\<close>, a negative one \<^verbatim>\<open>-inf\<close> and zero over
  zero is \<^verbatim>\<open>nan\<close>, as numpy computes them without raising.
\<close>

datatype fval = Fin rat | PInf | NInf | NaN

datatype pyerr =
    KeyError string
  | TypeError
  | ValueError
  | ZeroDivisionError
  | IndexError
  | NameError string
  | ParserError

definition bind_err :: "pyerr + 'a \<Rightarrow> ('a \<Rightarrow> pyerr + 'b) \<Rightarrow> pyerr + 'b" where
  "bind_err m f = (case m of Inl e \<Rightarrow> Inl e | Inr x \<Rightarrow> f x)"

fun fneg :: "fval \<Rightarrow> fval" where
  "fneg (Fin a) = Fin (- a)"
| "fneg PInf = NInf"
| "fneg NInf = PInf"
| "fneg NaN = NaN"

text \<open>An infinity times or over a finite value: the sign follows the finite operand.\<close>

definition inf_signed :: "bool \<Rightarrow> fval" where
  "inf_signed pos = (if pos then PInf else NInf)"

fun fdiv :: "fval \<Rightarrow> fval \<Rightarrow> fval" where
  "fdiv NaN _ = NaN"
| "fdiv _ NaN = NaN"
| "fdiv (Fin a) (Fin b) =
     (if b \<noteq> 0 then Fin (a / b)
      else if 0 < a then PInf else if a < 0 then NInf else NaN)"
| "fdiv (Fin a) PInf = Fin 0"
| "fdiv (Fin a) NInf = Fin 0"
| "fdiv PInf (Fin b) = inf_signed (0 \<le> b)"
| "fdiv NInf (Fin b) = inf_signed (b < 0)"
| "fdiv PInf PInf = NaN"
| "fdiv PInf NInf = NaN"
| "fdiv NInf PInf = NaN"
| "fdiv NInf NInf = NaN"

fun fmul :: "fval \<Rightarrow> fval \<Rightarrow> fval" where
  "fmul NaN _ = NaN"
| "fmul _ NaN = NaN"
| "fmul (Fin a) (Fin b) = Fin (a * b)"
| "fmul (Fin a) PInf = (if a = 0 then NaN else inf_signed (0 < a))"
| "fmul (Fin a) NInf = (if a = 0 then NaN else inf_signed (a < 0))"
| "fmul PInf (Fin b) = (if b = 0 then NaN else inf_signed (0 < b))"
| "fmul NInf (Fin b) = (if b = 0 then NaN else inf_signed (b < 0))"
| "fmul PInf PInf = PInf"
| "fmul PInf NInf = NInf"
| "fmul NInf PInf = NInf"
| "fmul NInf NInf = PInf"

fun fadd :: "fval \<Rightarrow> fval \<Rightarrow> fval" where
  "fadd NaN _ = NaN"
| "fadd _ NaN = NaN"
| "fadd (Fin a) (Fin b) = Fin (a + b)"
| "fadd (Fin a) PInf = PInf"
| "fadd (Fin a) NInf = NInf"
| "fadd PInf (Fin b) = PInf"
| "fadd NInf (Fin b) = NInf"
| "fadd PInf PInf = PInf"
| "fadd NInf NInf = NInf"
| "fadd PInf NInf = NaN"
| "fadd NInf PInf = NaN"

definition fsub :: "fval \<Rightarrow> fval \<Rightarrow> fval" where
  "fsub a b = fadd a (fneg b)"

text \<open>The comparison \<^verbatim>\<open><=\<close> of floats: false as soon as one side is \<^verbatim>\<open>nan\<close>.\<close>

fun fle :: "fval \<Rightarrow> fval \<Rightarrow> bool" where
  "fle NaN _ = False"
| "fle _ NaN = False"
| "fle NInf _ = True"
| "fle _ PInf = True"
| "fle (Fin a) (Fin b) = (a \<le> b)"
| "fle (Fin a) NInf = False"
| "fle PInf (Fin b) = False"
| "fle PInf NInf = False"

definition is_inf_or_nan :: "fval \<Rightarrow> bool" where
  "is_inf_or_nan v = (case v of Fin _ \<Rightarrow> False | _ \<Rightarrow> True)"

text \<open>
  A column has one dtype: numeric (\<^verbatim>\<open>int64\<close> or \<^verbatim>\<open>float64\<close>, both read as exact
  values) or \<^verbatim>\<open>object\<close>, whose entries are strings or \<^verbatim>\<open>None\<close>.  A frame is the
  list of its named columns, in column order.
\<close>

datatype column = NumCol "fval list" | ObjCol "string option list"

type_synonym dataframe = "(string \<times> column) list"

fun col_len :: "column \<Rightarrow> nat" where
  "col_len (NumCol xs) = length xs"
| "col_len (ObjCol xs) = length xs"

definition columns :: "dataframe \<Rightarrow> string list" where
  "columns df = map fst df"

text \<open>\<^verbatim>\<open>df[name]\<close>: the column, or \<^verbatim>\<open>KeyError\<close>.\<close>

definition getitem :: "dataframe \<Rightarrow> string \<Rightarrow> pyerr + column" where
  "getitem df name = (case map_of df name of None \<Rightarrow> Inl (KeyError name) | Some c \<Rightarrow> Inr c)"

text \<open>
  \<^verbatim>\<open>df[name] = col\<close>: an existing column is replaced where it stands, a new one is
  appended as the last column.
\<close>

fun setitem :: "dataframe \<Rightarrow> string \<Rightarrow> column \<Rightarrow> dataframe" where
  "setitem [] name c = [(name, c)]"
| "setitem ((k, v) # df) name c =
     (if k = name then (k, c) # df else (k, v) # setitem df name c)"

text \<open>\<^verbatim>\<open>df.drop(columns=names)\<close>: \<^verbatim>\<open>KeyError\<close> when a name is not a column.\<close>

definition drop_columns :: "dataframe \<Rightarrow> string list \<Rightarrow> pyerr + dataframe" where
  "drop_columns df names =
     (case filter (\<lambda>n. n \<notin> set (columns df)) names of
        [] \<Rightarrow> Inr (filter (\<lambda>(k, v). k \<notin> set names) df)
      | n # _ \<Rightarrow> Inl (KeyError n))"

text \<open>Boolean indexing \<^verbatim>\<open>df[mask]\<close>: the rows whose mask entry is true, in order.\<close>

definition select :: "bool list \<Rightarrow> 'a list \<Rightarrow> 'a list" where
  "select keep xs = map snd (filter fst (zip keep xs))"

fun select_col :: "bool list \<Rightarrow> column \<Rightarrow> column" where
  "select_col keep (NumCol xs) = NumCol (select keep xs)"
| "select_col keep (ObjCol xs) = ObjCol (select keep xs)"

definition loc_mask :: "dataframe \<Rightarrow> bool list \<Rightarrow> dataframe" where
  "loc_mask df keep = map (\<lambda>(k, c). (k, select_col keep c)) df"

text \<open>Arithmetic needs numeric operands; on an object column it raises \<^verbatim>\<open>TypeError\<close>.\<close>

fun numeric :: "column \<Rightarrow> pyerr + fval list" where
  "numeric (NumCol xs) = Inr xs"
| "numeric (ObjCol xs) = Inl TypeError"

definition col_div :: "column \<Rightarrow> column \<Rightarrow> pyerr + column" where
  "col_div a b =
     bind_err (numeric a) (\<lambda>xs. bind_err (numeric b) (\<lambda>ys.
       Inr (NumCol (map2 fdiv xs ys))))"

definition col_mul :: "column \<Rightarrow> column \<Rightarrow> pyerr + column" where
  "col_mul a b =
     bind_err (numeric a) (\<lambda>xs. bind_err (numeric b) (\<lambda>ys.
       Inr (NumCol (map2 fmul xs ys))))"

subsection \<open>Quantiles\<close>

text \<open>
  \<^verbatim>\<open>Series.quantile(q)\<close> with its default linear interpolation: missing values are
  skipped, the rest is sorted, and the value at the fractional position
  \<open>(n - 1) * q\<close> is interpolated between its two neighbours; an empty series gives
  \<^verbatim>\<open>nan\<close>.  The notebook asks for \<open>q = 0.1\<close> and \<open>q = 0.9\<close> only, so the
  position lies within the sorted values.
\<close>

fun insort_f :: "fval \<Rightarrow> fval list \<Rightarrow> fval list" where
  "insort_f x [] = [x]"
| "insort_f x (y # ys) = (if fle x y then x # y # ys else y # insort_f x ys)"

definition sort_f :: "fval list \<Rightarrow> fval list" where
  "sort_f xs = foldr insort_f xs []"

definition quantile :: "fval list \<Rightarrow> rat \<Rightarrow> fval" where
  "quantile xs q =
     (let vs = sort_f (filter (\<lambda>v. v \<noteq> NaN) xs); n = length vs in
      if n = 0 then NaN
      else
        let pos = of_nat (n - 1) * q;
            lo = nat \<lfloor>pos\<rfloor>;
            hi = min (lo + 1) (n - 1);
            t = pos - of_nat lo
        in fadd (vs ! lo) (fmul (fsub (vs ! hi) (vs ! lo)) (Fin t)))"

section \<open>Data preparation\<close>

text \<open>
  \<^verbatim>\<open>data_prepared()\<close> reads \<^verbatim>\<open>data.csv\<close>; the frame \<open>csv\<close> is what
  \<^verbatim>\<open>read_csv\<close> returned.  \<^verbatim>\<open>pd.to_datetime\<close> is pandas' parser, taken as the
  parameter \<open>to_datetime\<close>: it may raise, and otherwise returns the converted series.
  Both quantiles are taken on the price column before any row is removed.

  The statements of the function body, in order: \<open>convert_date\<close> is
  \<^verbatim>\<open>df['date'] = pd.to_datetime(df['date'])\<close>; \<open>filter_price\<close> is the boolean
  indexing by \<open>price_mask\<close>, the conjunction of the two comparisons with the
  quantiles; \<open>set_ratio\<close>, \<open>set_price_per_sqft\<close> and \<open>set_interaction\<close> are the
  three feature assignments; the two \<^verbatim>\<open>drop\<close> calls follow.
\<close>

definition price_mask :: "fval list \<Rightarrow> bool list" where
  "price_mask ps =
     (let q10 = quantile ps (1 / 10); q90 = quantile ps (9 / 10)
      in map (\<lambda>p. fle q10 p \<and> fle p q90) ps)"

definition set_ratio :: "dataframe \<Rightarrow> pyerr + dataframe" where
  "set_ratio df =
     bind_err (getitem df ''bedrooms'') (\<lambda>b.
     bind_err (getitem df ''bathrooms'') (\<lambda>ba.
     bind_err (col_div b ba) (\<lambda>r.
       Inr (setitem df ''bedrooms_to_bathrooms_ratio'' r))))"

definition set_price_per_sqft :: "dataframe \<Rightarrow> pyerr + dataframe" where
  "set_price_per_sqft df =
     bind_err (getitem df ''price'') (\<lambda>p.
     bind_err (getitem df ''sqft_living'') (\<lambda>s.
     bind_err (col_div p s) (\<lambda>r.
       Inr (setitem df ''price_per_sqft'' r))))"

definition set_interaction :: "dataframe \<Rightarrow> pyerr + dataframe" where
  "set_interaction df =
     bind_err (getitem df ''bedrooms'') (\<lambda>b.
     bind_err (getitem df ''bathrooms'') (\<lambda>ba.
     bind_err (col_mul b ba) (\<lambda>r.
       Inr (setitem df ''bedrooms_bathrooms_interaction'' r))))"

definition filter_price :: "dataframe \<Rightarrow> pyerr + dataframe" where
  "filter_price df =
     bind_err (getitem df ''price'') (\<lambda>p.
     bind_err (numeric p) (\<lambda>ps.
       Inr (loc_mask df (price_mask ps))))"

definition convert_date :: "(column \<Rightarrow> pyerr + column) \<Rightarrow> dataframe \<Rightarrow> pyerr + dataframe" where
  "convert_date to_datetime df =
     bind_err (getitem df ''date'') (\<lambda>d.
     bind_err (to_datetime d) (\<lambda>d'.
       if col_len d' = col_len d then Inr (setitem df ''date'' d') else Inl ValueError))"

definition unused_columns :: "string list" where
  "unused_columns =
     [''sqft_above'', ''sqft_basement'', ''yr_renovated'', ''condition'', ''yr_built'',
      ''date'', ''street'', ''city'', ''sqft_lot'']"

definition data_prepared :: "(column \<Rightarrow> pyerr + column) \<Rightarrow> dataframe \<Rightarrow> pyerr + dataframe" where
  "data_prepared to_datetime csv =
     bind_err (convert_date to_datetime csv) (\<lambda>df.
     bind_err (filter_price df) (\<lambda>df.
     bind_err (set_ratio df) (\<lambda>df.
     bind_err (set_price_per_sqft df) (\<lambda>df.
     bind_err (set_interaction df) (\<lambda>df.
     bind_err (drop_columns df [''country'', ''statezip'']) (\<lambda>df.
       drop_columns df unused_columns))))))"

section \<open>Model training\<close>

text \<open>
  scikit-learn is not part of the notebook.  Its entry points are the fields of a
  record that every definition below takes as \<open>lib\<close>; \<open>'m\<close> is the type of a
  fitted model.  Each call may raise.  \<open>cv_mean_score\<close> is the mean score of an
  estimator over the given number of cross-validation folds of the given data.
\<close>

record rf_params =
  n_estimators :: "int option"
  max_depth :: "int option"
  random_state :: "int option"

datatype estimator =
    SimpleImputer
  | RandomForestRegressor rf_params
  | Pipeline "(string \<times> estimator) list"

record 'm sklearn =
  train_test_split ::
    "dataframe \<Rightarrow> column \<Rightarrow> rat \<Rightarrow> int \<Rightarrow> pyerr + (dataframe \<times> dataframe \<times> column \<times> column)"
  fit :: "estimator \<Rightarrow> dataframe \<Rightarrow> column \<Rightarrow> pyerr + 'm"
  predict :: "'m \<Rightarrow> dataframe \<Rightarrow> pyerr + fval list"
  score :: "'m \<Rightarrow> dataframe \<Rightarrow> column \<Rightarrow> pyerr + fval"
  cv_mean_score :: "estimator \<Rightarrow> nat \<Rightarrow> dataframe \<Rightarrow> column \<Rightarrow> pyerr + rat"

text \<open>\<^verbatim>\<open>range(start, stop, step)\<close> for a positive step.\<close>

definition py_range :: "int \<Rightarrow> int \<Rightarrow> int \<Rightarrow> int list" where
  "py_range start stop step =
     map (\<lambda>i. start + int i * step) [0 ..< nat ((stop - start + step - 1) div step)]"

text \<open>
  Setting a parameter by name.  A pipeline hands \<^verbatim>\<open>step__param\<close> to the step of
  that name; an unknown step or parameter is \<^verbatim>\<open>ValueError\<close>.
\<close>

fun partition_dunder :: "string \<Rightarrow> string \<Rightarrow> (string \<times> string) option" where
  "partition_dunder acc (a # b # rest) =
     (if a = CHR ''_'' \<and> b = CHR ''_'' then Some (rev acc, rest)
      else partition_dunder (a # acc) (b # rest))"
| "partition_dunder acc _ = None"

definition set_forest_param :: "rf_params \<Rightarrow> string \<Rightarrow> int \<Rightarrow> pyerr + rf_params" where
  "set_forest_param p key v =
     (if key = ''n_estimators'' then Inr (p\<lparr>n_estimators := Some v\<rparr>)
      else if key = ''max_depth'' then Inr (p\<lparr>max_depth := Some v\<rparr>)
      else if key = ''random_state'' then Inr (p\<lparr>random_state := Some v\<rparr>)
      else Inl ValueError)"

fun set_step_param :: "(string \<times> estimator) list \<Rightarrow> string \<Rightarrow> string \<Rightarrow> int
    \<Rightarrow> pyerr + (string \<times> estimator) list" where
  "set_step_param [] name key v = Inl ValueError"
| "set_step_param ((n, e) # steps) name key v =
     (if n = name then
        (case e of
           RandomForestRegressor p \<Rightarrow>
             bind_err (set_forest_param p key v) (\<lambda>p'. Inr ((n, RandomForestRegressor p') # steps))
         | _ \<Rightarrow> Inl ValueError)
      else bind_err (set_step_param steps name key v) (\<lambda>steps'. Inr ((n, e) # steps')))"

definition set_param :: "estimator \<Rightarrow> string \<times> int \<Rightarrow> pyerr + estimator" where
  "set_param e kv =
     (case e of
        SimpleImputer \<Rightarrow> Inl ValueError
      | RandomForestRegressor p \<Rightarrow>
          bind_err (set_forest_param p (fst kv) (snd kv)) (\<lambda>p'. Inr (RandomForestRegressor p'))
      | Pipeline steps \<Rightarrow>
          (case partition_dunder [] (fst kv) of
             None \<Rightarrow> Inl ValueError
           | Some (name, key) \<Rightarrow>
               bind_err (set_step_param steps name key (snd kv)) (\<lambda>steps'. Inr (Pipeline steps'))))"

fun set_params :: "estimator \<Rightarrow> (string \<times> int) list \<Rightarrow> pyerr + estimator" where
  "set_params e [] = Inr e"
| "set_params e (kv # kvs) = bind_err (set_param e kv) (\<lambda>e'. set_params e' kvs)"

text \<open>
  The candidates of a parameter grid: the keys in sorted order, every combination of
  their values, the last key varying fastest.
\<close>

fun product_params :: "(string \<times> int list) list \<Rightarrow> (string \<times> int) list list" where
  "product_params [] = [[]]"
| "product_params ((k, vs) # rest) =
     concat (map (\<lambda>v. map (\<lambda>r. (k, v) # r) (product_params rest)) vs)"

definition parameter_grid :: "(string \<times> int list) list \<Rightarrow> (string \<times> int) list list" where
  "parameter_grid grid = product_params (sort_key fst grid)"

text \<open>
  \<^verbatim>\<open>GridSearchCV(...).fit(X, y)\<close>: every candidate is set on a copy of the
  estimator and scored by cross-validation; the first candidate of highest mean score
  wins and, with \<^verbatim>\<open>refit=True\<close>, is fitted on all of \<open>X\<close>, \<open>y\<close>.
\<close>

record 'm grid_search =
  gs_estimator :: estimator
  gs_param_grid :: "(string \<times> int list) list"
  gs_cv :: nat
  gs_refit :: bool
  cv_results :: "((string \<times> int) list \<times> rat) list"
  best_params :: "(string \<times> int) list"
  best_estimator :: "'m option"

fun score_candidates :: "'m sklearn \<Rightarrow> estimator \<Rightarrow> nat \<Rightarrow> dataframe \<Rightarrow> column
    \<Rightarrow> (string \<times> int) list list \<Rightarrow> pyerr + ((string \<times> int) list \<times> rat) list" where
  "score_candidates lib e k X y [] = Inr []"
| "score_candidates lib e k X y (c # cs) =
     bind_err (set_params e c) (\<lambda>e'.
     bind_err (cv_mean_score lib e' k X y) (\<lambda>s.
     bind_err (score_candidates lib e k X y cs) (\<lambda>rest.
       Inr ((c, s) # rest))))"

fun best_of :: "('a \<times> rat) \<Rightarrow> ('a \<times> rat) list \<Rightarrow> ('a \<times> rat)" where
  "best_of b [] = b"
| "best_of b (c # cs) = best_of (if snd b < snd c then c else b) cs"

definition grid_search_fit :: "'m sklearn \<Rightarrow> estimator \<Rightarrow> (string \<times> int list) list \<Rightarrow> nat
    \<Rightarrow> bool \<Rightarrow> dataframe \<Rightarrow> column \<Rightarrow> pyerr + 'm grid_search" where
  "grid_search_fit lib e grid k refit X y =
     bind_err (score_candidates lib e k X y (parameter_grid grid)) (\<lambda>results.
       case results of
         [] \<Rightarrow> Inl ValueError
       | r # rs \<Rightarrow>
           let best = fst (best_of r rs) in
           bind_err (set_params e best) (\<lambda>e'.
           bind_err (if refit then bind_err (fit lib e' X y) (\<lambda>m. Inr (Some m)) else Inr None)
             (\<lambda>m.
               Inr \<lparr>gs_estimator = e, gs_param_grid = grid, gs_cv = k, gs_refit = refit,
                    cv_results = results, best_params = best, best_estimator = m\<rparr>)))"

subsection \<open>The notebook's cells\<close>

text \<open>
  The global variables that the modelling and deployment cells assign; \<open>X_all\<close> and
  \<open>y_all\<close> are the notebook's \<^verbatim>\<open>X\<close> and \<^verbatim>\<open>y\<close>.  An estimator
  variable holds the estimator as constructed and its fitted state; a variable that
  no cell has assigned yet is \<open>None\<close>, and reading it is \<^verbatim>\<open>NameError\<close>.
\<close>

record 'm notebook =
  X_all :: dataframe
  y_all :: column
  X_train :: dataframe
  X_test :: dataframe
  y_train :: column
  y_test :: column
  rf_reg :: "(estimator \<times> 'm) option"
  rf_score :: "fval option"
  rf :: "(estimator \<times> 'm) option"
  params :: "(string \<times> int list) list option"
  model :: "'m grid_search option"

definition cell_30 :: "'m sklearn \<Rightarrow> (column \<Rightarrow> pyerr + column) \<Rightarrow> dataframe \<Rightarrow> pyerr + 'm notebook" where
  "cell_30 lib to_datetime csv =
     bind_err (data_prepared to_datetime csv) (\<lambda>df.
     bind_err (drop_columns df [''price'']) (\<lambda>X'.
     bind_err (data_prepared to_datetime csv) (\<lambda>df2.
     bind_err (getitem df2 ''price'') (\<lambda>y'.
     bind_err (train_test_split lib X' y' (3 / 10) 42) (\<lambda>(a, b, c, d).
       Inr \<lparr>X_all = X', y_all = y', X_train = a, X_test = b, y_train = c, y_test = d,
            rf_reg = None, rf_score = None, rf = None, params = None, model = None\<rparr>)))))"

definition default_forest :: estimator where
  "default_forest =
     RandomForestRegressor \<lparr>n_estimators = None, max_depth = None, random_state = Some 42\<rparr>"

definition cell_31 :: "'m sklearn \<Rightarrow> 'm notebook \<Rightarrow> pyerr + 'm notebook" where
  "cell_31 lib nb =
     bind_err (train_test_split lib (X_all nb) (y_all nb) (2 / 10) 42) (\<lambda>(a, b, c, d).
     bind_err (fit lib default_forest a c) (\<lambda>m.
     bind_err (score lib m b d) (\<lambda>s.
       Inr (nb\<lparr>X_train := a, X_test := b, y_train := c, y_test := d,
               rf_reg := Some (default_forest, m), rf_score := Some s\<rparr>))))"

definition imputer_pipeline :: estimator where
  "imputer_pipeline =
     Pipeline [(''simpleimputer'', SimpleImputer), (''randomforestregressor'', default_forest)]"

text \<open>The pipeline with the two grid parameters set on its forest.\<close>

definition grid_pipeline :: "int \<Rightarrow> int \<Rightarrow> estimator" where
  "grid_pipeline n d =
     Pipeline [(''simpleimputer'', SimpleImputer),
               (''randomforestregressor'',
                RandomForestRegressor
                  \<lparr>n_estimators = Some n, max_depth = Some d, random_state = Some 42\<rparr>)]"

definition cell_33 :: "'m sklearn \<Rightarrow> 'm notebook \<Rightarrow> pyerr + 'm notebook" where
  "cell_33 lib nb =
     bind_err (fit lib imputer_pipeline (X_train nb) (y_train nb)) (\<lambda>m.
       Inr (nb\<lparr>rf := Some (imputer_pipeline, m)\<rparr>))"

definition cell_38 :: "'m notebook \<Rightarrow> 'm notebook" where
  "cell_38 nb =
     nb\<lparr>params := Some [(''randomforestregressor__n_estimators'', py_range 25 100 25),
                        (''randomforestregressor__max_depth'', py_range 10 50 10)]\<rparr>"

definition cell_41 :: "'m sklearn \<Rightarrow> 'm notebook \<Rightarrow> pyerr + 'm notebook" where
  "cell_41 lib nb =
     (case rf nb of
        None \<Rightarrow> Inl (NameError ''rf'')
      | Some (e, _) \<Rightarrow>
          (case params nb of
             None \<Rightarrow> Inl (NameError ''params'')
           | Some grid \<Rightarrow>
               bind_err (grid_search_fit lib e grid 5 True (X_train nb) (y_train nb)) (\<lambda>g.
                 Inr (nb\<lparr>model := Some g\<rparr>))))"

text \<open>
  The cells in the order of the notebook, up to the deployment cell, each run once.
  The cells that only print or plot (the errors of \<^verbatim>\<open>rf\<close> and of \<^verbatim>\<open>model\<close>,
  \<^verbatim>\<open>cross_val_score\<close>) assign none of these variables and are left out.
\<close>

definition run_notebook :: "'m sklearn \<Rightarrow> (column \<Rightarrow> pyerr + column) \<Rightarrow> dataframe \<Rightarrow> pyerr + 'm notebook" where
  "run_notebook lib to_datetime csv =
     bind_err (cell_30 lib to_datetime csv) (\<lambda>nb.
     bind_err (cell_31 lib nb) (\<lambda>nb.
     bind_err (cell_33 lib nb) (\<lambda>nb.
       cell_41 lib (cell_38 nb))))"

section \<open>Model deployment\<close>

subsection \<open>Formatting a price\<close>

text \<open>
  The format specification \<^verbatim>\<open>,.2f\<close>: the value is rounded to two decimals, ties
  to even, and the integer part is grouped in threes by commas.
\<close>

definition digit_char :: "nat \<Rightarrow> char" where
  "digit_char d = ''0123456789'' ! d"

fun digits :: "nat \<Rightarrow> string" where
  "digits n = (if n < 10 then [digit_char n] else digits (n div 10) @ [digit_char (n mod 10)])"

definition pad3 :: "nat \<Rightarrow> string" where
  "pad3 n = [digit_char (n div 100 mod 10), digit_char (n div 10 mod 10), digit_char (n mod 10)]"

fun group_thousands :: "nat \<Rightarrow> string" where
  "group_thousands n =
     (if n < 1000 then digits n else group_thousands (n div 1000) @ '','' @ pad3 (n mod 1000))"

definition round_half_even :: "rat \<Rightarrow> int" where
  "round_half_even x =
     (let f = \<lfloor>x\<rfloor>; r = x - of_int f in
      if r < 1 / 2 then f else if 1 / 2 < r then f + 1 else if even f then f else f + 1)"

fun format_comma_2f :: "fval \<Rightarrow> string" where
  "format_comma_2f (Fin x) =
     (let c = nat (round_half_even (\<bar>x\<bar> * 100)) in
      (if x < 0 then ''-'' else []) @ group_thousands (c div 100) @ ''.'' @
      [digit_char (c div 10 mod 10), digit_char (c mod 10)])"
| "format_comma_2f PInf = ''inf''"
| "format_comma_2f NInf = ''-inf''"
| "format_comma_2f NaN = ''nan''"

text \<open>The shape \<^verbatim>\<open>$d,ddd.dd\<close>: a dollar sign, digits in groups of three, two decimals.\<close>

definition is_digit :: "char \<Rightarrow> bool" where
  "is_digit c = (c \<in> set ''0123456789'')"

fun comma_groups :: "string \<Rightarrow> bool" where
  "comma_groups [] = True"
| "comma_groups (c # d1 # d2 # d3 # rest) =
     (c = CHR '','' \<and> is_digit d1 \<and> is_digit d2 \<and> is_digit d3 \<and> comma_groups rest)"
| "comma_groups _ = False"

definition grouped :: "string \<Rightarrow> bool" where
  "grouped s =
     (\<exists>k \<in> {1, 2, 3}. k \<le> length s \<and> list_all is_digit (take k s) \<and> comma_groups (drop k s))"

definition is_currency :: "string \<Rightarrow> bool" where
  "is_currency s =
     (case s of
        [] \<Rightarrow> False
      | c # body \<Rightarrow>
          c = CHR ''$'' \<and> 4 \<le> length body \<and>
          (let ip = take (length body - 3) body; fr = drop (length body - 3) body
           in grouped ip \<and> fr ! 0 = CHR ''.'' \<and> is_digit (fr ! 1) \<and> is_digit (fr ! 2)))"

text \<open>
  The number of cents that a price text denotes: its digits read in base ten, the
  dollar sign, the commas and the point skipped.
\<close>

definition digit_value :: "char \<Rightarrow> nat" where
  "digit_value c = length (takeWhile (\<lambda>d. d \<noteq> c) ''0123456789'')"

definition read_digits :: "nat \<Rightarrow> string \<Rightarrow> nat" where
  "read_digits a s = foldl (\<lambda>a c. 10 * a + digit_value c) a (filter is_digit s)"

definition read_cents :: "string \<Rightarrow> nat" where
  "read_cents s = read_digits 0 s"

subsection \<open>The form and its callback\<close>

text \<open>
  A number field of the form hands the callback a number, or \<^verbatim>\<open>None\<close> when it is
  empty.  The layout gives every field its least and greatest value and its step.
\<close>

datatype pyval = PyNone | PyNum rat

record number_input =
  ident :: string
  initial :: rat
  least :: rat
  greatest :: rat
  step :: rat

definition layout :: "number_input list" where
  "layout =
     [\<lparr>ident = ''bedrooms'', initial = 3, least = 1, greatest = 10, step = 1\<rparr>,
      \<lparr>ident = ''bathrooms'', initial = 2, least = 1, greatest = 10, step = 1 / 2\<rparr>,
      \<lparr>ident = ''sqft_living'', initial = 1500, least = 500, greatest = 10000, step = 50\<rparr>,
      \<lparr>ident = ''floors'', initial = 1, least = 1, greatest = 5, step = 1 / 2\<rparr>,
      \<lparr>ident = ''waterfront'', initial = 0, least = 0, greatest = 1, step = 1\<rparr>,
      \<lparr>ident = ''view'', initial = 0, least = 0, greatest = 4, step = 1\<rparr>]"

definition valid_value :: "number_input \<Rightarrow> pyval \<Rightarrow> bool" where
  "valid_value inp v =
     (case v of
        PyNone \<Rightarrow> False
      | PyNum x \<Rightarrow>
          least inp \<le> x \<and> x \<le> greatest inp \<and>
          (x - least inp) / step inp = of_int \<lfloor>(x - least inp) / step inp\<rfloor>)"

definition valid_submission :: "pyval list \<Rightarrow> bool" where
  "valid_submission vs = (length vs = length layout \<and> list_all2 valid_value layout vs)"

datatype component = Div string "(string \<times> string) list"

definition py_truediv :: "pyval \<Rightarrow> pyval \<Rightarrow> pyerr + rat" where
  "py_truediv a b =
     (case (a, b) of
        (PyNum x, PyNum y) \<Rightarrow> if y = 0 then Inl ZeroDivisionError else Inr (x / y)
      | _ \<Rightarrow> Inl TypeError)"

definition py_mul :: "pyval \<Rightarrow> pyval \<Rightarrow> pyerr + rat" where
  "py_mul a b = (case (a, b) of (PyNum x, PyNum y) \<Rightarrow> Inr (x * y) | _ \<Rightarrow> Inl TypeError)"

text \<open>A one-element list as a column of a new frame.\<close>

fun cell_column :: "pyval \<Rightarrow> column" where
  "cell_column (PyNum x) = NumCol [Fin x]"
| "cell_column PyNone = ObjCol [None]"

definition input_data :: "pyval \<Rightarrow> pyval \<Rightarrow> pyval \<Rightarrow> pyval \<Rightarrow> pyval \<Rightarrow> pyval \<Rightarrow> pyerr + dataframe" where
  "input_data bedrooms bathrooms sqft_living floors waterfront view =
     bind_err (py_truediv bedrooms bathrooms) (\<lambda>ratio.
     bind_err (py_mul bedrooms bathrooms) (\<lambda>interaction.
       Inr [(''bedrooms'', cell_column bedrooms),
            (''bathrooms'', cell_column bathrooms),
            (''sqft_living'', cell_column sqft_living),
            (''floors'', cell_column floors),
            (''waterfront'', cell_column waterfront),
            (''view'', cell_column view),
            (''bedrooms_to_bathrooms_ratio'', NumCol [Fin ratio]),
            (''price_per_sqft'', NumCol [Fin 0]),
            (''bedrooms_bathrooms_interaction'', NumCol [Fin interaction])]))"

definition first :: "'a list \<Rightarrow> pyerr + 'a" where
  "first xs = (case xs of [] \<Rightarrow> Inl IndexError | x # _ \<Rightarrow> Inr x)"

text \<open>
  The callback reads the global \<^verbatim>\<open>rf_reg\<close>.  Without a click it falls off its end
  and returns \<^verbatim>\<open>None\<close>.
\<close>

definition update_output :: "'m sklearn \<Rightarrow> 'm notebook \<Rightarrow> int \<Rightarrow>
    pyval \<Rightarrow> pyval \<Rightarrow> pyval \<Rightarrow> pyval \<Rightarrow> pyval \<Rightarrow> pyval \<Rightarrow> pyerr + component option" where
  "update_output lib nb n_clicks bedrooms bathrooms sqft_living floors waterfront view =
     (if n_clicks > 0 then
        bind_err (input_data bedrooms bathrooms sqft_living floors waterfront view) (\<lambda>inp.
          case rf_reg nb of
            None \<Rightarrow> Inl (NameError ''rf_reg'')
          | Some (_, m) \<Rightarrow>
              bind_err (predict lib m inp) (\<lambda>preds.
              bind_err (first preds) (\<lambda>predicted_price.
                Inr (Some (Div (''Predicted Price: $'' @ format_comma_2f predicted_price)
                               [(''font-weight'', ''bold'')])))))
      else Inr None)"

section \<open>Schemas\<close>

text \<open>
  Modelled from the spec: \<^verbatim>\<open>data.csv\<close> is not part of the sources; its header is the
  fixed raw schema that the specification lists for the input file.
\<close>

definition raw_columns :: "string list" where
  "raw_columns =
     [''date'', ''price'', ''bedrooms'', ''bathrooms'', ''sqft_living'', ''sqft_lot'', ''floors'',
      ''waterfront'', ''view'', ''condition'', ''sqft_above'', ''sqft_basement'', ''yr_built'',
      ''yr_renovated'', ''street'', ''city'', ''statezip'', ''country'']"

text \<open>The six raw columns that survive preparation beside the price.\<close>

definition raw_features :: "string list" where
  "raw_features = [''bedrooms'', ''bathrooms'', ''sqft_living'', ''floors'', ''waterfront'', ''view'']"

text \<open>The columns of a feature table: the raw features, then the three derived ones.\<close>

definition feature_columns :: "string list" where
  "feature_columns =
     raw_features @
     [''bedrooms_to_bathrooms_ratio'', ''price_per_sqft'', ''bedrooms_bathrooms_interaction'']"

text \<open>A column name that \<^verbatim>\<open>data_prepared\<close> neither assigns nor drops.\<close>

definition kept_name :: "string \<Rightarrow> bool" where
  "kept_name name \<longleftrightarrow>
     name \<notin> set ([''date'', ''bedrooms_to_bathrooms_ratio'', ''price_per_sqft'',
                   ''bedrooms_bathrooms_interaction'', ''country'', ''statezip''] @ unused_columns)"

text \<open>A frame as \<^verbatim>\<open>read_csv\<close> builds it: all columns have the same number of rows.\<close>

definition frame_rows :: "dataframe \<Rightarrow> nat \<Rightarrow> bool" where
  "frame_rows df n = list_all (\<lambda>(k, c). col_len c = n) df"

text \<open>
  A file that \<^verbatim>\<open>data_prepared\<close> is written for: the raw schema, \<open>n\<close> rows, and
  numbers in the four columns it computes with.
\<close>

fun is_numeric :: "pyerr + column \<Rightarrow> bool" where
  "is_numeric (Inr (NumCol xs)) = True"
| "is_numeric _ = False"

definition raw_frame :: "dataframe \<Rightarrow> nat \<Rightarrow> bool" where
  "raw_frame csv n =
     (columns csv = raw_columns \<and> frame_rows csv n \<and>
      list_all (\<lambda>name. is_numeric (getitem csv name))
        [''price'', ''bedrooms'', ''bathrooms'', ''sqft_living''])"

text \<open>The named column of the result of a computation that may have failed.\<close>

definition column_of :: "pyerr + dataframe \<Rightarrow> string \<Rightarrow> pyerr + column" where
  "column_of r name = bind_err r (\<lambda>df. getitem df name)"

text \<open>A single row of finite numbers, as the callback builds it.\<close>

definition single_numeric_row :: "dataframe \<Rightarrow> bool" where
  "single_numeric_row df =
     list_all (\<lambda>(k, c). case c of NumCol [Fin x] \<Rightarrow> True | _ \<Rightarrow> False) df"

subsection \<open>What the library promises\<close>

text \<open>
  What scikit-learn's forest and split promise, as far as the callback relies on
  them.  A regression forest answers with the mean, over its trees, of the mean of the
  training targets that share a leaf with the row; asked about one row of numbers
  under the columns it was fitted on, it returns that one number.  A split hands on
  the columns of the table it was given.
\<close>

definition mean :: "rat list \<Rightarrow> rat" where
  "mean xs = sum_list xs / of_nat (length xs)"

definition leaf_value :: "rat list \<Rightarrow> rat \<Rightarrow> bool" where
  "leaf_value ys v \<longleftrightarrow> (\<exists>sel. sel \<noteq> [] \<and> set sel \<subseteq> set ys \<and> v = mean sel)"

definition forest_prediction :: "rat list \<Rightarrow> rat \<Rightarrow> bool" where
  "forest_prediction ys p \<longleftrightarrow> (\<exists>vs. vs \<noteq> [] \<and> list_all (leaf_value ys) vs \<and> p = mean vs)"

definition forest_library :: "'m sklearn \<Rightarrow> bool" where
  "forest_library lib \<longleftrightarrow>
     (\<forall>ps Xs ys m inp.
        fit lib (RandomForestRegressor ps) Xs (NumCol (map Fin ys)) = Inr m \<and>
        inp \<noteq> [] \<and> columns inp = columns Xs \<and> single_numeric_row inp \<longrightarrow>
        (\<exists>p. predict lib m inp = Inr [Fin p] \<and> forest_prediction ys p))"

definition split_keeps_columns :: "'m sklearn \<Rightarrow> bool" where
  "split_keeps_columns lib \<longleftrightarrow>
     (\<forall>Xs ys test_size seed a b c d.
        train_test_split lib Xs ys test_size seed = Inr (a, b, c, d) \<longrightarrow>
        columns a = columns Xs \<and> columns b = columns Xs)"

section \<open>Sample data\<close>

text \<open>
  Seven sales in the raw schema.  The cheapest and the dearest fall outside the
  quantile band; two of the remaining five have no bathroom.
\<close>

definition example_csv :: dataframe where
  "example_csv =
     [(''date'', ObjCol [Some ''2014-05-02'', Some ''2014-05-02'', Some ''2014-05-03'',
                         Some ''2014-05-04'', Some ''2014-05-05'', Some ''2014-05-06'',
                         Some ''2014-05-07'']),
      (''price'', NumCol [Fin 300000, Fin 100000, Fin 700000, Fin 200000, Fin 400000,
                          Fin 600000, Fin 500000]),
      (''bedrooms'', NumCol [Fin 3, Fin 2, Fin 5, Fin 3, Fin 0, Fin 4, Fin 4]),
      (''bathrooms'', NumCol [Fin 0, Fin 1, Fin (5 / 2), Fin 2, Fin 0, Fin 2, Fin (5 / 2)]),
      (''sqft_living'', NumCol [Fin 1500, Fin 800, Fin 3000, Fin 1000, Fin 1600, Fin 2400,
                                Fin 2500]),
      (''sqft_lot'', NumCol [Fin 5000, Fin 4000, Fin 9000, Fin 6000, Fin 7000, Fin 8000,
                             Fin 7500]),
      (''floors'', NumCol [Fin 1, Fin 1, Fin 2, Fin (3 / 2), Fin 1, Fin 2, Fin 2]),
      (''waterfront'', NumCol [Fin 0, Fin 0, Fin 1, Fin 0, Fin 0, Fin 0, Fin 0]),
      (''view'', NumCol [Fin 0, Fin 0, Fin 4, Fin 0, Fin 2, Fin 0, Fin 1]),
      (''condition'', NumCol [Fin 3, Fin 3, Fin 5, Fin 4, Fin 3, Fin 4, Fin 3]),
      (''sqft_above'', NumCol [Fin 1500, Fin 800, Fin 2000, Fin 1000, Fin 1100, Fin 2400,
                               Fin 2000]),
      (''sqft_basement'', NumCol [Fin 0, Fin 0, Fin 1000, Fin 0, Fin 500, Fin 0, Fin 500]),
      (''yr_built'', NumCol [Fin 1990, Fin 1955, Fin 2005, Fin 1978, Fin 1966, Fin 2001,
                             Fin 1985]),
      (''yr_renovated'', NumCol [Fin 0, Fin 2001, Fin 0, Fin 0, Fin 1999, Fin 0, Fin 0]),
      (''street'', ObjCol [Some ''1 A St'', Some ''2 B St'', Some ''3 C St'', Some ''4 D St'',
                           Some ''5 E St'', Some ''6 F St'', Some ''7 G St'']),
      (''city'', ObjCol [Some ''Seattle'', Some ''Kent'', Some ''Bellevue'', Some ''Seattle'',
                         Some ''Redmond'', Some ''Seattle'', Some ''Kent'']),
      (''statezip'', ObjCol [Some ''WA 98101'', Some ''WA 98030'', Some ''WA 98004'',
                             Some ''WA 98103'', Some ''WA 98052'', Some ''WA 98105'',
                             Some ''WA 98031'']),
      (''country'', ObjCol [Some ''USA'', Some ''USA'', Some ''USA'', Some ''USA'', Some ''USA'',
                            Some ''USA'', Some ''USA''])]"

definition example_prepared :: dataframe where
  "example_prepared =
     [(''price'', NumCol [Fin 300000, Fin 200000, Fin 400000, Fin 600000, Fin 500000]),
      (''bedrooms'', NumCol [Fin 3, Fin 3, Fin 0, Fin 4, Fin 4]),
      (''bathrooms'', NumCol [Fin 0, Fin 2, Fin 0, Fin 2, Fin (5 / 2)]),
      (''sqft_living'', NumCol [Fin 1500, Fin 1000, Fin 1600, Fin 2400, Fin 2500]),
      (''floors'', NumCol [Fin 1, Fin (3 / 2), Fin 1, Fin 2, Fin 2]),
      (''waterfront'', NumCol [Fin 0, Fin 0, Fin 0, Fin 0, Fin 0]),
      (''view'', NumCol [Fin 0, Fin 0, Fin 2, Fin 0, Fin 1]),
      (''bedrooms_to_bathrooms_ratio'', NumCol [PInf, Fin (3 / 2), NaN, Fin 2, Fin (8 / 5)]),
      (''price_per_sqft'', NumCol [Fin 200, Fin 200, Fin 250, Fin 250, Fin 200]),
      (''bedrooms_bathrooms_interaction'', NumCol [Fin 0, Fin 6, Fin 0, Fin 8, Fin 10])]"

text \<open>The same sales, except that the only house without a bathroom is the dearest one.\<close>

definition outlier_csv :: dataframe where
  "outlier_csv =
     setitem (setitem example_csv ''bathrooms''
        (NumCol [Fin 1, Fin 1, Fin 0, Fin 2, Fin 1, Fin 2, Fin (5 / 2)]))
        ''bedrooms'' (NumCol [Fin 3, Fin 2, Fin 0, Fin 3, Fin 2, Fin 4, Fin 4])"

text \<open>
  A stand-in for the library, for running the cells on the sample: the split keeps
  the row order and puts the last \<open>\<lceil>test_size * n\<rceil>\<close> rows in the test part; a
  fitted model remembers its estimator and its training targets and predicts their
  mean for every row, plus one unit for each tree of a forest that was given a
  number of trees; the cross-validated score prefers fifty trees of depth twenty.
\<close>

fun take_col :: "nat \<Rightarrow> column \<Rightarrow> column" where
  "take_col n (NumCol xs) = NumCol (take n xs)"
| "take_col n (ObjCol xs) = ObjCol (take n xs)"

fun drop_col :: "nat \<Rightarrow> column \<Rightarrow> column" where
  "drop_col n (NumCol xs) = NumCol (drop n xs)"
| "drop_col n (ObjCol xs) = ObjCol (drop n xs)"

definition toy_split :: "dataframe \<Rightarrow> column \<Rightarrow> rat \<Rightarrow> int
    \<Rightarrow> pyerr + (dataframe \<times> dataframe \<times> column \<times> column)" where
  "toy_split Xs ys test_size seed =
     (let n = col_len ys; k = n - nat \<lceil>test_size * of_nat n\<rceil> in
      Inr (map (\<lambda>(name, c). (name, take_col k c)) Xs,
           map (\<lambda>(name, c). (name, drop_col k c)) Xs,
           take_col k ys, drop_col k ys))"

fun finite_values :: "fval list \<Rightarrow> rat list" where
  "finite_values [] = []"
| "finite_values (Fin a # vs) = a # finite_values vs"
| "finite_values (_ # vs) = finite_values vs"

fun forest_of :: "estimator \<Rightarrow> rf_params option" where
  "forest_of (RandomForestRegressor p) = Some p"
| "forest_of (Pipeline [(_, SimpleImputer), (_, RandomForestRegressor p)]) = Some p"
| "forest_of _ = None"

definition toy_trees :: "estimator \<Rightarrow> int" where
  "toy_trees e =
     (case forest_of e of
        None \<Rightarrow> 0
      | Some p \<Rightarrow> (case n_estimators p of None \<Rightarrow> 0 | Some n \<Rightarrow> n))"

definition toy_depth :: "estimator \<Rightarrow> int" where
  "toy_depth e =
     (case forest_of e of
        None \<Rightarrow> 0
      | Some p \<Rightarrow> (case max_depth p of None \<Rightarrow> 0 | Some n \<Rightarrow> n))"

definition toy_fit :: "estimator \<Rightarrow> dataframe \<Rightarrow> column \<Rightarrow> pyerr + (estimator \<times> rat list)" where
  "toy_fit e Xs ys = bind_err (numeric ys) (\<lambda>vs. Inr (e, finite_values vs))"

definition frame_len :: "dataframe \<Rightarrow> nat" where
  "frame_len df = (case df of [] \<Rightarrow> 0 | (_, c) # _ \<Rightarrow> col_len c)"

definition toy_predict :: "estimator \<times> rat list \<Rightarrow> dataframe \<Rightarrow> pyerr + fval list" where
  "toy_predict m Xs =
     (if snd m = [] then Inl ValueError
      else Inr (replicate (frame_len Xs)
             (Fin (sum_list (snd m) / of_nat (length (snd m)) + of_int (toy_trees (fst m))))))"

definition toy_sklearn :: "(estimator \<times> rat list) sklearn" where
  "toy_sklearn =
     \<lparr>train_test_split = toy_split,
      fit = toy_fit,
      predict = toy_predict,
      score = (\<lambda>m Xs ys. Inr (Fin 1)),
      cv_mean_score = (\<lambda>e k Xs ys.
         Inr (- of_int (\<bar>toy_trees e - 50\<bar> + \<bar>toy_depth e - 20\<bar>) / of_nat k))\<rparr>"

text \<open>
  A second stand-in for the library, one that keeps the forest's promise: fitting
  fails without a finite training target, and a fitted model predicts the mean of its
  training targets for every row.
\<close>

definition mean_fit :: "estimator \<Rightarrow> dataframe \<Rightarrow> column \<Rightarrow> pyerr + (estimator \<times> rat list)" where
  "mean_fit e Xs ys =
     bind_err (numeric ys) (\<lambda>vs.
       if finite_values vs = [] then Inl ValueError else Inr (e, finite_values vs))"

definition mean_predict :: "estimator \<times> rat list \<Rightarrow> dataframe \<Rightarrow> pyerr + fval list" where
  "mean_predict m Xs = Inr (replicate (frame_len Xs) (Fin (mean (snd m))))"

definition mean_sklearn :: "(estimator \<times> rat list) sklearn" where
  "mean_sklearn = toy_sklearn\<lparr>fit := mean_fit, predict := mean_predict\<rparr>"

text \<open>The sample notebook serving the form's initial values after \<open>n\<close> clicks.\<close>

definition example_served :: "int \<Rightarrow> pyerr + component option" where
  "example_served n =
     bind_err (run_notebook toy_sklearn Inr example_csv) (\<lambda>nb.
       update_output toy_sklearn nb n (PyNum 3) (PyNum 2) (PyNum 1500) (PyNum 1) (PyNum 0) (PyNum 0))"

text \<open>What the tuned model of the sample notebook predicts for the same row.\<close>

definition example_tuned :: "pyerr + fval list" where
  "example_tuned =
     bind_err (run_notebook toy_sklearn Inr example_csv) (\<lambda>nb.
     bind_err (input_data (PyNum 3) (PyNum 2) (PyNum 1500) (PyNum 1) (PyNum 0) (PyNum 0)) (\<lambda>inp.
       case model nb of
         None \<Rightarrow> Inl (NameError ''model'')
       | Some g \<Rightarrow>
           (case best_estimator g of
              None \<Rightarrow> Inl ValueError
            | Some m \<Rightarrow> predict toy_sklearn m inp)))"

section \<open>Properties of the frame operations\<close>

lemma bind_err_Inr [simp]: "bind_err (Inr x) f = f x"
  by (simp add: bind_err_def)

lemma bind_err_Inl [simp]: "bind_err (Inl e) f = Inl e"
  by (simp add: bind_err_def)

lemma bind_err_eq_Inr: "bind_err m f = Inr r \<longleftrightarrow> (\<exists>x. m = Inr x \<and> f x = Inr r)"
  by (cases m) simp_all

lemma getitem_setitem_other: "name \<noteq> k \<Longrightarrow> getitem (setitem df k c) name = getitem df name"
  by (induction df) (auto simp: getitem_def)

lemma getitem_setitem_same: "getitem (setitem df k c) k = Inr c"
  by (induction df) (auto simp: getitem_def)

lemma getitem_loc_mask:
  "getitem (loc_mask df keep) name =
     (case getitem df name of Inl e \<Rightarrow> Inl e | Inr c \<Rightarrow> Inr (select_col keep c))"
  by (induction df) (auto simp: getitem_def loc_mask_def)

lemma map_of_filter_keys:
  "name \<notin> S \<Longrightarrow> map_of (filter (\<lambda>(k, v). k \<notin> S) df) name = map_of df name"
  by (induction df) auto

lemma drop_columns_Inr:
  "drop_columns df names = Inr df' \<Longrightarrow> df' = filter (\<lambda>(k, v). k \<notin> set names) df"
  by (auto simp: drop_columns_def split: list.splits)

lemma getitem_drop_columns:
  "drop_columns df names = Inr df' \<Longrightarrow> name \<notin> set names \<Longrightarrow> getitem df' name = getitem df name"
  using drop_columns_Inr [of df names df'] by (simp add: getitem_def map_of_filter_keys)

lemma getitem_Inr_columns: "getitem df name = Inr c \<Longrightarrow> name \<in> set (columns df)"
  by (auto simp: getitem_def columns_def split: option.splits dest: map_of_SomeD intro: rev_image_eqI)

lemma getitem_columns_Inr: "name \<in> set (columns df) \<Longrightarrow> \<exists>c. getitem df name = Inr c"
  by (cases "map_of df name") (auto simp: getitem_def columns_def map_of_eq_None_iff)

lemma select_map_self: "select (map P xs) xs = filter P xs"
  by (induction xs) (auto simp: select_def)

lemma price_mask_eq:
  "price_mask ps = map (\<lambda>p. fle (quantile ps (1 / 10)) p \<and> fle p (quantile ps (9 / 10))) ps"
  by (simp add: price_mask_def Let_def)

lemma length_price_mask: "length (price_mask ps) = length ps"
  by (simp add: price_mask_eq)

subsection \<open>Column names through the operations\<close>

lemma columns_setitem:
  "columns (setitem df k c) = (if k \<in> set (columns df) then columns df else columns df @ [k])"
  by (induction df) (force simp: columns_def)+

lemma columns_loc_mask: "columns (loc_mask df keep) = columns df"
  by (simp add: columns_def loc_mask_def case_prod_unfold comp_def)

lemma columns_drop_columns:
  "drop_columns df names = Inr df' \<Longrightarrow> columns df' = filter (\<lambda>k. k \<notin> set names) (columns df)"
  using drop_columns_Inr [of df names df']
  by (simp add: columns_def filter_map comp_def case_prod_unfold)

lemma drop_columns_succeeds:
  "set names \<subseteq> set (columns df) \<Longrightarrow> \<exists>df'. drop_columns df names = Inr df'"
proof -
  assume "set names \<subseteq> set (columns df)"
  then have "filter (\<lambda>n. n \<notin> set (columns df)) names = []"
    by (auto simp: filter_empty_conv)
  then show ?thesis by (simp add: drop_columns_def)
qed

subsection \<open>The steps of the preparation\<close>

lemma convert_date_getitem:
  "convert_date td df = Inr df' \<Longrightarrow> name \<noteq> ''date'' \<Longrightarrow> getitem df' name = getitem df name"
  by (auto simp: convert_date_def bind_err_eq_Inr getitem_setitem_other split: if_splits)

lemma set_ratio_getitem:
  "set_ratio df = Inr df' \<Longrightarrow> name \<noteq> ''bedrooms_to_bathrooms_ratio'' \<Longrightarrow>
   getitem df' name = getitem df name"
  by (auto simp: set_ratio_def bind_err_eq_Inr getitem_setitem_other)

lemma set_price_per_sqft_getitem:
  "set_price_per_sqft df = Inr df' \<Longrightarrow> name \<noteq> ''price_per_sqft'' \<Longrightarrow>
   getitem df' name = getitem df name"
  by (auto simp: set_price_per_sqft_def bind_err_eq_Inr getitem_setitem_other)

lemma set_interaction_getitem:
  "set_interaction df = Inr df' \<Longrightarrow> name \<noteq> ''bedrooms_bathrooms_interaction'' \<Longrightarrow>
   getitem df' name = getitem df name"
  by (auto simp: set_interaction_def bind_err_eq_Inr getitem_setitem_other)

lemma filter_price_Inr:
  "filter_price df = Inr df' \<Longrightarrow>
   \<exists>ps. getitem df ''price'' = Inr (NumCol ps) \<and> df' = loc_mask df (price_mask ps)"
  by (auto simp: filter_price_def bind_err_eq_Inr elim: numeric.elims)

lemma col_div_Inr:
  "col_div a b = Inr r \<Longrightarrow> \<exists>xs ys. a = NumCol xs \<and> b = NumCol ys \<and> r = NumCol (map2 fdiv xs ys)"
  by (auto simp: col_div_def bind_err_eq_Inr elim!: numeric.elims)

lemma set_ratio_Inr:
  "set_ratio df = Inr df' \<Longrightarrow>
   \<exists>xs ys. getitem df ''bedrooms'' = Inr (NumCol xs) \<and> getitem df ''bathrooms'' = Inr (NumCol ys) \<and>
     df' = setitem df ''bedrooms_to_bathrooms_ratio'' (NumCol (map2 fdiv xs ys))"
  by (auto simp: set_ratio_def bind_err_eq_Inr dest!: col_div_Inr)

lemma set_price_per_sqft_Inr:
  "set_price_per_sqft df = Inr df' \<Longrightarrow>
   \<exists>xs ys. getitem df ''price'' = Inr (NumCol xs) \<and> getitem df ''sqft_living'' = Inr (NumCol ys) \<and>
     df' = setitem df ''price_per_sqft'' (NumCol (map2 fdiv xs ys))"
  by (auto simp: set_price_per_sqft_def bind_err_eq_Inr dest!: col_div_Inr)

lemma data_prepared_steps:
  assumes "data_prepared td csv = Inr out"
  obtains d1 d2 d3 d4 d5 d6 where
    "convert_date td csv = Inr d1" "filter_price d1 = Inr d2" "set_ratio d2 = Inr d3"
    "set_price_per_sqft d3 = Inr d4" "set_interaction d4 = Inr d5"
    "drop_columns d5 [''country'', ''statezip''] = Inr d6" "drop_columns d6 unused_columns = Inr out"
  using assms unfolding data_prepared_def bind_err_eq_Inr by blast

lemma data_prepared_kept_column:
  assumes run: "data_prepared td csv = Inr out" and name: "kept_name name"
  shows "\<exists>ps. getitem csv ''price'' = Inr (NumCol ps) \<and>
           getitem out name =
             (case getitem csv name of Inl e \<Rightarrow> Inl e
              | Inr c \<Rightarrow> Inr (select_col (price_mask ps) c))"
proof -
  from run obtain d1 d2 d3 d4 d5 d6 where
    s1: "convert_date td csv = Inr d1" and s2: "filter_price d1 = Inr d2" and
    s3: "set_ratio d2 = Inr d3" and s4: "set_price_per_sqft d3 = Inr d4" and
    s5: "set_interaction d4 = Inr d5" and
    s6: "drop_columns d5 [''country'', ''statezip''] = Inr d6" and
    s7: "drop_columns d6 unused_columns = Inr out"
    by (rule data_prepared_steps)
  from s2 obtain ps where p1: "getitem d1 ''price'' = Inr (NumCol ps)"
    and d2: "d2 = loc_mask d1 (price_mask ps)"
    using filter_price_Inr by blast
  have p0: "getitem csv ''price'' = Inr (NumCol ps)"
    using convert_date_getitem [OF s1, of "''price''"] p1 by simp
  have "getitem out name = getitem d6 name"
    using getitem_drop_columns [OF s7] name by (simp add: kept_name_def)
  also have "\<dots> = getitem d5 name"
    using getitem_drop_columns [OF s6] name by (simp add: kept_name_def)
  also have "\<dots> = getitem d4 name"
    using set_interaction_getitem [OF s5] name by (simp add: kept_name_def)
  also have "\<dots> = getitem d3 name"
    using set_price_per_sqft_getitem [OF s4] name by (simp add: kept_name_def)
  also have "\<dots> = getitem d2 name"
    using set_ratio_getitem [OF s3] name by (simp add: kept_name_def)
  also have "\<dots> = (case getitem d1 name of Inl e \<Rightarrow> Inl e
                     | Inr c \<Rightarrow> Inr (select_col (price_mask ps) c))"
    by (simp add: d2 getitem_loc_mask)
  also have "getitem d1 name = getitem csv name"
    using convert_date_getitem [OF s1] name by (simp add: kept_name_def)
  finally show ?thesis using p0 by blast
qed

lemma kept_name_price: "kept_name ''price''"
  by (simp add: kept_name_def unused_columns_def)

lemma kept_name_raw_features: "name \<in> set raw_features \<Longrightarrow> kept_name name"
  by (auto simp: kept_name_def unused_columns_def raw_features_def)

lemma example_run: "data_prepared Inr example_csv = Inr example_prepared"
  by code_simp

section \<open>The price filter\<close>

text \<open>
  Claim C1.  When \<^verbatim>\<open>data_prepared\<close> returns, the price column of its result is the
  price column of the file restricted, in order, to the prices \<open>p\<close> with
  \<open>q10 \<le> p \<le> q90\<close>, where both quantiles are those of the whole price column of the
  file; and each of the six raw feature columns is restricted to the same rows.  So
  every row of the result lies in the band and every row of the file in the band is
  kept.
\<close>

theorem data_prepared_price_filter:
  assumes "data_prepared to_datetime csv = Inr out"
  shows "\<exists>ps. getitem csv ''price'' = Inr (NumCol ps) \<and>
           getitem out ''price'' =
             Inr (NumCol (filter (\<lambda>p. fle (quantile ps (1 / 10)) p \<and> fle p (quantile ps (9 / 10))) ps)) \<and>
           (\<forall>name \<in> set raw_features. \<forall>c. getitem csv name = Inr c \<longrightarrow>
               getitem out name = Inr (select_col (price_mask ps) c))"
proof -
  from data_prepared_kept_column [OF assms kept_name_price]
  obtain ps where ps: "getitem csv ''price'' = Inr (NumCol ps)"
    and out: "getitem out ''price'' = Inr (select_col (price_mask ps) (NumCol ps))"
    by auto
  have "getitem out name = Inr (select_col (price_mask ps) c)"
    if "name \<in> set raw_features" "getitem csv name = Inr c" for name c
    using data_prepared_kept_column [OF assms kept_name_raw_features [OF that(1)]] ps that(2)
    by auto
  moreover have "select_col (price_mask ps) (NumCol ps) =
      NumCol (filter (\<lambda>p. fle (quantile ps (1 / 10)) p \<and> fle p (quantile ps (9 / 10))) ps)"
    by (simp add: price_mask_eq select_map_self)
  ultimately show ?thesis using ps out by auto
qed

theorem data_prepared_price_filter_witness:
  "data_prepared Inr example_csv = Inr example_prepared \<and>
   (\<exists>ps. getitem example_csv ''price'' = Inr (NumCol ps) \<and>
      getitem example_prepared ''price'' =
        Inr (NumCol (filter (\<lambda>p. fle (quantile ps (1 / 10)) p \<and> fle p (quantile ps (9 / 10))) ps)) \<and>
      (\<forall>name \<in> set raw_features. \<forall>c. getitem example_csv name = Inr c \<longrightarrow>
          getitem example_prepared name = Inr (select_col (price_mask ps) c)))"
  using data_prepared_price_filter [OF example_run] example_run by simp

section \<open>Properties of the derived columns\<close>

lemma data_prepared_tail:
  assumes s4: "set_price_per_sqft d3 = Inr d4" and s5: "set_interaction d4 = Inr d5"
    and s6: "drop_columns d5 [''country'', ''statezip''] = Inr d6"
    and s7: "drop_columns d6 unused_columns = Inr out"
    and name: "name \<notin> set ([''bedrooms_bathrooms_interaction'', ''country'', ''statezip''] @ unused_columns)"
  shows "getitem out name = getitem d4 name"
    and "name \<noteq> ''price_per_sqft'' \<Longrightarrow> getitem out name = getitem d3 name"
proof -
  have "getitem out name = getitem d6 name"
    using getitem_drop_columns [OF s7] name by simp
  also have "\<dots> = getitem d5 name"
    using getitem_drop_columns [OF s6] name by simp
  also have "\<dots> = getitem d4 name"
    using set_interaction_getitem [OF s5] name by simp
  finally show a: "getitem out name = getitem d4 name" .
  show "getitem out name = getitem d3 name" if "name \<noteq> ''price_per_sqft''"
    using a set_price_per_sqft_getitem [OF s4 that] by simp
qed

lemma data_prepared_derived_columns:
  assumes run: "data_prepared td csv = Inr out"
  shows "\<exists>beds baths ps ss.
           getitem out ''bedrooms'' = Inr (NumCol beds) \<and>
           getitem out ''bathrooms'' = Inr (NumCol baths) \<and>
           getitem out ''price'' = Inr (NumCol ps) \<and>
           getitem out ''sqft_living'' = Inr (NumCol ss) \<and>
           getitem out ''bedrooms_to_bathrooms_ratio'' = Inr (NumCol (map2 fdiv beds baths)) \<and>
           getitem out ''price_per_sqft'' = Inr (NumCol (map2 fdiv ps ss))"
proof -
  from run obtain d1 d2 d3 d4 d5 d6 where
    s1: "convert_date td csv = Inr d1" and s2: "filter_price d1 = Inr d2" and
    s3: "set_ratio d2 = Inr d3" and s4: "set_price_per_sqft d3 = Inr d4" and
    s5: "set_interaction d4 = Inr d5" and
    s6: "drop_columns d5 [''country'', ''statezip''] = Inr d6" and
    s7: "drop_columns d6 unused_columns = Inr out"
    by (rule data_prepared_steps)
  note tail = data_prepared_tail [OF s4 s5 s6 s7]
  from set_ratio_Inr [OF s3] obtain beds baths where
    b2: "getitem d2 ''bedrooms'' = Inr (NumCol beds)" and
    ba2: "getitem d2 ''bathrooms'' = Inr (NumCol baths)" and
    d3: "d3 = setitem d2 ''bedrooms_to_bathrooms_ratio'' (NumCol (map2 fdiv beds baths))"
    by blast
  from set_price_per_sqft_Inr [OF s4] obtain ps ss where
    p3: "getitem d3 ''price'' = Inr (NumCol ps)" and
    s3': "getitem d3 ''sqft_living'' = Inr (NumCol ss)" and
    d4: "d4 = setitem d3 ''price_per_sqft'' (NumCol (map2 fdiv ps ss))"
    by blast
  have "getitem out ''bedrooms'' = getitem d3 ''bedrooms''"
    by (rule tail(2)) (simp_all add: unused_columns_def)
  then have 1: "getitem out ''bedrooms'' = Inr (NumCol beds)"
    using set_ratio_getitem [OF s3, of "''bedrooms''"] b2 by simp
  have "getitem out ''bathrooms'' = getitem d3 ''bathrooms''"
    by (rule tail(2)) (simp_all add: unused_columns_def)
  then have 2: "getitem out ''bathrooms'' = Inr (NumCol baths)"
    using set_ratio_getitem [OF s3, of "''bathrooms''"] ba2 by simp
  have "getitem out ''price'' = getitem d3 ''price''"
    by (rule tail(2)) (simp_all add: unused_columns_def)
  then have 3: "getitem out ''price'' = Inr (NumCol ps)"
    using p3 by simp
  have "getitem out ''sqft_living'' = getitem d3 ''sqft_living''"
    by (rule tail(2)) (simp_all add: unused_columns_def)
  then have 4: "getitem out ''sqft_living'' = Inr (NumCol ss)"
    using s3' by simp
  have "getitem out ''bedrooms_to_bathrooms_ratio'' = getitem d3 ''bedrooms_to_bathrooms_ratio''"
    by (rule tail(2)) (simp_all add: unused_columns_def)
  then have 5: "getitem out ''bedrooms_to_bathrooms_ratio'' = Inr (NumCol (map2 fdiv beds baths))"
    by (simp add: d3 getitem_setitem_same)
  have "getitem out ''price_per_sqft'' = getitem d4 ''price_per_sqft''"
    by (rule tail(1)) (simp_all add: unused_columns_def)
  then have 6: "getitem out ''price_per_sqft'' = Inr (NumCol (map2 fdiv ps ss))"
    by (simp add: d4 getitem_setitem_same)
  from 1 2 3 4 5 6 show ?thesis by blast
qed

subsection \<open>The schema of the prepared frame\<close>

lemma convert_date_columns: "convert_date td df = Inr df' \<Longrightarrow> columns df' = columns df"
  by (auto simp: convert_date_def bind_err_eq_Inr columns_setitem split: if_splits
           dest: getitem_Inr_columns)

lemma filter_price_columns: "filter_price df = Inr df' \<Longrightarrow> columns df' = columns df"
  by (auto dest!: filter_price_Inr simp: columns_loc_mask)

lemma set_ratio_columns:
  "set_ratio df = Inr df' \<Longrightarrow>
   columns df' = (if ''bedrooms_to_bathrooms_ratio'' \<in> set (columns df) then columns df
                  else columns df @ [''bedrooms_to_bathrooms_ratio''])"
  by (auto simp: set_ratio_def bind_err_eq_Inr columns_setitem)

lemma set_price_per_sqft_columns:
  "set_price_per_sqft df = Inr df' \<Longrightarrow>
   columns df' = (if ''price_per_sqft'' \<in> set (columns df) then columns df
                  else columns df @ [''price_per_sqft''])"
  by (auto simp: set_price_per_sqft_def bind_err_eq_Inr columns_setitem)

lemma set_interaction_columns:
  "set_interaction df = Inr df' \<Longrightarrow>
   columns df' = (if ''bedrooms_bathrooms_interaction'' \<in> set (columns df) then columns df
                  else columns df @ [''bedrooms_bathrooms_interaction''])"
  by (auto simp: set_interaction_def bind_err_eq_Inr columns_setitem)

lemma data_prepared_raw_columns:
  assumes raw: "columns csv = raw_columns" and run: "data_prepared td csv = Inr out"
  shows "columns out = ''price'' # feature_columns"
proof -
  from run obtain d1 d2 d3 d4 d5 d6 where
    s1: "convert_date td csv = Inr d1" and s2: "filter_price d1 = Inr d2" and
    s3: "set_ratio d2 = Inr d3" and s4: "set_price_per_sqft d3 = Inr d4" and
    s5: "set_interaction d4 = Inr d5" and
    s6: "drop_columns d5 [''country'', ''statezip''] = Inr d6" and
    s7: "drop_columns d6 unused_columns = Inr out"
    by (rule data_prepared_steps)
  have c2: "columns d2 = raw_columns"
    using convert_date_columns [OF s1] filter_price_columns [OF s2] raw by simp
  have c3: "columns d3 = raw_columns @ [''bedrooms_to_bathrooms_ratio'']"
    using set_ratio_columns [OF s3] by (simp add: c2 raw_columns_def)
  have c4: "columns d4 = raw_columns @ [''bedrooms_to_bathrooms_ratio'', ''price_per_sqft'']"
    using set_price_per_sqft_columns [OF s4] by (simp add: c3 raw_columns_def)
  have c5: "columns d5 = raw_columns @ [''bedrooms_to_bathrooms_ratio'', ''price_per_sqft'',
      ''bedrooms_bathrooms_interaction'']"
    using set_interaction_columns [OF s5] by (simp add: c4 raw_columns_def)
  have c6: "columns d6 = filter (\<lambda>k. k \<notin> set [''country'', ''statezip'']) (columns d5)"
    by (rule columns_drop_columns [OF s6])
  have "columns out = filter (\<lambda>k. k \<notin> set unused_columns) (columns d6)"
    by (rule columns_drop_columns [OF s7])
  then show ?thesis
    by (simp add: c6 c5 raw_columns_def unused_columns_def feature_columns_def raw_features_def)
qed

lemma input_data_columns:
  "input_data b ba s f w v = Inr inp \<Longrightarrow> columns inp = feature_columns"
  by (auto simp: input_data_def bind_err_eq_Inr columns_def feature_columns_def raw_features_def)

lemma example_features:
  "drop_columns example_prepared [''price''] = Inr (tl example_prepared)"
  by code_simp

lemma example_columns: "columns example_csv = raw_columns"
  by code_simp

lemma example_input:
  "input_data (PyNum 3) (PyNum 2) (PyNum 1500) (PyNum 1) (PyNum 0) (PyNum 0) =
     Inr [(''bedrooms'', NumCol [Fin 3]), (''bathrooms'', NumCol [Fin 2]),
          (''sqft_living'', NumCol [Fin 1500]), (''floors'', NumCol [Fin 1]),
          (''waterfront'', NumCol [Fin 0]), (''view'', NumCol [Fin 0]),
          (''bedrooms_to_bathrooms_ratio'', NumCol [Fin (3 / 2)]),
          (''price_per_sqft'', NumCol [Fin 0]),
          (''bedrooms_bathrooms_interaction'', NumCol [Fin 6])]"
  by (simp add: input_data_def py_truediv_def py_mul_def)

section \<open>The feature schema at training and at serving\<close>

text \<open>
  Claim C2.  For a file with the raw schema, the feature table \<^verbatim>\<open>X\<close> is the
  prepared frame without its price column; the single-row frame that
  \<^verbatim>\<open>update_output\<close> assembles has the same column names in the same order, nine of
  them.
\<close>

theorem serving_schema_equals_training_schema:
  assumes "columns csv = raw_columns"
    and "data_prepared to_datetime csv = Inr df"
    and "drop_columns df [''price''] = Inr Xf"
    and "input_data bedrooms bathrooms sqft_living floors waterfront view = Inr inp"
  shows "columns inp = columns Xf \<and> length (columns inp) = 9"
proof -
  have "columns Xf = filter (\<lambda>k. k \<notin> set [''price'']) (''price'' # feature_columns)"
    using columns_drop_columns [OF assms(3)] data_prepared_raw_columns [OF assms(1,2)] by simp
  then have "columns Xf = feature_columns"
    by (simp add: feature_columns_def raw_features_def)
  moreover have "columns inp = feature_columns"
    by (rule input_data_columns [OF assms(4)])
  ultimately show ?thesis
    by (simp add: feature_columns_def raw_features_def)
qed

theorem serving_schema_equals_training_schema_witness:
  "columns example_csv = raw_columns \<and>
   data_prepared Inr example_csv = Inr example_prepared \<and>
   drop_columns example_prepared [''price''] = Inr (tl example_prepared) \<and>
   columns [(''bedrooms'', NumCol [Fin 3]), (''bathrooms'', NumCol [Fin 2]),
          (''sqft_living'', NumCol [Fin 1500]), (''floors'', NumCol [Fin 1]),
          (''waterfront'', NumCol [Fin 0]), (''view'', NumCol [Fin 0]),
          (''bedrooms_to_bathrooms_ratio'', NumCol [Fin (3 / 2)]),
          (''price_per_sqft'', NumCol [Fin 0]),
          (''bedrooms_bathrooms_interaction'', NumCol [Fin 6])] = columns (tl example_prepared)"
  using serving_schema_equals_training_schema
          [OF example_columns example_run example_features example_input]
        example_columns example_run example_features
  by simp

section \<open>The derived features\<close>

lemma fdiv_nonzero: "p \<noteq> 0 \<Longrightarrow> fdiv (Fin p) (Fin s) \<noteq> Fin 0"
  by simp

text \<open>
  Claim C3.  In the prepared frame the column \<^verbatim>\<open>price_per_sqft\<close> is, row by row,
  the price divided by the living area.  The frame that \<^verbatim>\<open>update_output\<close> builds
  holds the constant 0 there, whatever the form sent; for a house of living area \<open>s\<close>
  whose true price \<open>p\<close> is not zero, the training-time value \<open>p / s\<close> is not 0.
\<close>

theorem price_per_sqft_training_and_serving:
  assumes "data_prepared to_datetime csv = Inr out"
    and "input_data bedrooms bathrooms (PyNum s) floors waterfront view = Inr inp"
    and "p \<noteq> 0"
  shows "(\<exists>ps ss. getitem out ''price'' = Inr (NumCol ps) \<and>
            getitem out ''sqft_living'' = Inr (NumCol ss) \<and>
            getitem out ''price_per_sqft'' = Inr (NumCol (map2 fdiv ps ss))) \<and>
         getitem inp ''price_per_sqft'' = Inr (NumCol [Fin 0]) \<and>
         fdiv (Fin p) (Fin s) \<noteq> Fin 0"
proof -
  have "getitem inp ''price_per_sqft'' = Inr (NumCol [Fin 0])"
    using assms(2) by (auto simp: input_data_def bind_err_eq_Inr getitem_def)
  then show ?thesis
    using data_prepared_derived_columns [OF assms(1)] fdiv_nonzero [OF assms(3)] by blast
qed

theorem price_per_sqft_training_and_serving_witness:
  "data_prepared Inr example_csv = Inr example_prepared \<and> (300000 :: rat) \<noteq> 0 \<and>
   (\<exists>ps ss. getitem example_prepared ''price'' = Inr (NumCol ps) \<and>
      getitem example_prepared ''sqft_living'' = Inr (NumCol ss) \<and>
      getitem example_prepared ''price_per_sqft'' = Inr (NumCol (map2 fdiv ps ss))) \<and>
   fdiv (Fin 300000) (Fin 1500) \<noteq> Fin 0"
  using price_per_sqft_training_and_serving [OF example_run example_input, of 300000]
        example_run
  by simp

text \<open>
  Claim C5.  In the prepared frame the column \<^verbatim>\<open>bedrooms_to_bathrooms_ratio\<close> is,
  row by row, bedrooms divided by bathrooms; in a row with a finite number of
  bedrooms \<open>a\<close> and a finite, nonzero number of bathrooms \<open>c\<close> it is the number
  \<open>a / c\<close>.  When the callback has built its frame, both form values were numbers, the
  bathrooms were not zero, and the ratio in the frame is the same quotient.
\<close>

theorem bedrooms_to_bathrooms_ratio_training_and_serving:
  assumes "data_prepared to_datetime csv = Inr out"
    and "input_data bedrooms bathrooms sqft_living floors waterfront view = Inr inp"
  shows "(\<exists>beds baths. getitem out ''bedrooms'' = Inr (NumCol beds) \<and>
            getitem out ''bathrooms'' = Inr (NumCol baths) \<and>
            getitem out ''bedrooms_to_bathrooms_ratio'' = Inr (NumCol (map2 fdiv beds baths)) \<and>
            (\<forall>i a c. i < length beds \<and> i < length baths \<and> beds ! i = Fin a \<and>
                 baths ! i = Fin c \<and> c \<noteq> 0 \<longrightarrow>
                 map2 fdiv beds baths ! i = Fin (a / c))) \<and>
         (\<exists>a c. bedrooms = PyNum a \<and> bathrooms = PyNum c \<and> c \<noteq> 0 \<and>
            getitem inp ''bedrooms_to_bathrooms_ratio'' = Inr (NumCol [Fin (a / c)]) \<and>
            fdiv (Fin a) (Fin c) = Fin (a / c))"
proof -
  from data_prepared_derived_columns [OF assms(1)] obtain beds baths where
    cols: "getitem out ''bedrooms'' = Inr (NumCol beds)"
      "getitem out ''bathrooms'' = Inr (NumCol baths)"
      "getitem out ''bedrooms_to_bathrooms_ratio'' = Inr (NumCol (map2 fdiv beds baths))"
    by blast
  have rows: "map2 fdiv beds baths ! i = Fin (a / c)"
    if "i < length beds" "i < length baths" "beds ! i = Fin a" "baths ! i = Fin c" "c \<noteq> 0"
    for i a c
    using that by simp
  from assms(2) obtain r where r: "py_truediv bedrooms bathrooms = Inr r"
    and ratio: "getitem inp ''bedrooms_to_bathrooms_ratio'' = Inr (NumCol [Fin r])"
    by (auto simp: input_data_def bind_err_eq_Inr getitem_def)
  from r obtain a c where "bedrooms = PyNum a" "bathrooms = PyNum c" "c \<noteq> 0" "r = a / c"
    by (auto simp: py_truediv_def split: pyval.splits if_splits)
  with ratio have "\<exists>a c. bedrooms = PyNum a \<and> bathrooms = PyNum c \<and> c \<noteq> 0 \<and>
      getitem inp ''bedrooms_to_bathrooms_ratio'' = Inr (NumCol [Fin (a / c)]) \<and>
      fdiv (Fin a) (Fin c) = Fin (a / c)"
    by simp
  with cols rows show ?thesis by blast
qed

theorem bedrooms_to_bathrooms_ratio_training_and_serving_witness:
  "data_prepared Inr example_csv = Inr example_prepared \<and>
   getitem example_prepared ''bedrooms_to_bathrooms_ratio'' =
     Inr (NumCol [PInf, Fin (3 / 2), NaN, Fin 2, Fin (8 / 5)]) \<and>
   (\<exists>beds baths. getitem example_prepared ''bedrooms'' = Inr (NumCol beds) \<and>
      getitem example_prepared ''bathrooms'' = Inr (NumCol baths) \<and>
      getitem example_prepared ''bedrooms_to_bathrooms_ratio'' = Inr (NumCol (map2 fdiv beds baths)) \<and>
      (\<forall>i a c. i < length beds \<and> i < length baths \<and> beds ! i = Fin a \<and>
           baths ! i = Fin c \<and> c \<noteq> 0 \<longrightarrow>
           map2 fdiv beds baths ! i = Fin (a / c)))"
proof -
  have "getitem example_prepared ''bedrooms_to_bathrooms_ratio'' =
     Inr (NumCol [PInf, Fin (3 / 2), NaN, Fin 2, Fin (8 / 5)])"
    by code_simp
  then show ?thesis
    using bedrooms_to_bathrooms_ratio_training_and_serving [OF example_run example_input]
          example_run
    by simp
qed

section \<open>Houses without a bathroom\<close>

lemma fdiv_by_zero: "is_inf_or_nan (fdiv a (Fin 0))"
  by (cases a) (simp_all add: is_inf_or_nan_def inf_signed_def)

lemma frame_rows_getitem: "frame_rows df n \<Longrightarrow> getitem df name = Inr c \<Longrightarrow> col_len c = n"
  by (auto simp: frame_rows_def getitem_def list_all_iff split: option.splits dest!: map_of_SomeD)

lemma length_select: "length xs = length ys \<Longrightarrow> length (select keep xs) = length (select keep ys)"
proof (induction keep arbitrary: xs ys)
  case Nil
  then show ?case by (simp add: select_def)
next
  case (Cons k keep)
  then show ?case by (cases xs; cases ys) (auto simp: select_def)
qed

lemma is_numeric_getitem: "is_numeric (getitem df name) \<Longrightarrow> \<exists>xs. getitem df name = Inr (NumCol xs)"
  by (erule is_numeric.elims) auto

lemma data_prepared_succeeds:
  assumes raw: "raw_frame csv n"
    and date: "getitem csv ''date'' = Inr d" "to_datetime d = Inr d'" "col_len d' = col_len d"
  shows "\<exists>out. data_prepared to_datetime csv = Inr out"
proof -
  from raw have cols: "columns csv = raw_columns"
    and num: "is_numeric (getitem csv ''price'')" "is_numeric (getitem csv ''bedrooms'')"
      "is_numeric (getitem csv ''bathrooms'')" "is_numeric (getitem csv ''sqft_living'')"
    by (simp_all add: raw_frame_def)
  from num obtain ps beds baths ss where
    p0: "getitem csv ''price'' = Inr (NumCol ps)" and
    b0: "getitem csv ''bedrooms'' = Inr (NumCol beds)" and
    ba0: "getitem csv ''bathrooms'' = Inr (NumCol baths)" and
    s0: "getitem csv ''sqft_living'' = Inr (NumCol ss)"
    by (blast dest: is_numeric_getitem)
  define d1 where "d1 = setitem csv ''date'' d'"
  define keep where "keep = price_mask ps"
  define d2 where "d2 = loc_mask d1 keep"
  define d3 where "d3 = setitem d2 ''bedrooms_to_bathrooms_ratio''
    (NumCol (map2 fdiv (select keep beds) (select keep baths)))"
  define d4 where "d4 = setitem d3 ''price_per_sqft''
    (NumCol (map2 fdiv (select keep ps) (select keep ss)))"
  define d5 where "d5 = setitem d4 ''bedrooms_bathrooms_interaction''
    (NumCol (map2 fmul (select keep beds) (select keep baths)))"
  have s1: "convert_date to_datetime csv = Inr d1"
    by (simp add: convert_date_def date d1_def)
  have g1: "getitem d1 name = getitem csv name" if "name \<noteq> ''date''" for name
    using that by (simp add: d1_def getitem_setitem_other)
  have s2: "filter_price d1 = Inr d2"
    by (simp add: filter_price_def g1 p0 d2_def keep_def)
  have g2: "getitem d2 name = Inr (select_col keep c)"
    if "name \<noteq> ''date''" "getitem csv name = Inr c" for name c
    using that by (simp add: d2_def getitem_loc_mask g1)
  have s3: "set_ratio d2 = Inr d3"
    by (simp add: set_ratio_def g2 [OF _ b0] g2 [OF _ ba0] col_div_def d3_def)
  have g3: "getitem d3 name = Inr (select_col keep c)"
    if "name \<noteq> ''date''" "name \<noteq> ''bedrooms_to_bathrooms_ratio''" "getitem csv name = Inr c"
    for name c
    using that by (simp add: d3_def getitem_setitem_other g2)
  have s4: "set_price_per_sqft d3 = Inr d4"
    by (simp add: set_price_per_sqft_def g3 [OF _ _ p0] g3 [OF _ _ s0] col_div_def d4_def)
  have g4: "getitem d4 name = Inr (select_col keep c)"
    if "name \<noteq> ''date''" "name \<noteq> ''bedrooms_to_bathrooms_ratio''" "name \<noteq> ''price_per_sqft''"
      "getitem csv name = Inr c"
    for name c
    using that by (simp add: d4_def getitem_setitem_other g3)
  have s5: "set_interaction d4 = Inr d5"
    by (simp add: set_interaction_def g4 [OF _ _ _ b0] g4 [OF _ _ _ ba0] col_mul_def d5_def)
  have c5: "columns d5 = raw_columns @ [''bedrooms_to_bathrooms_ratio'', ''price_per_sqft'',
      ''bedrooms_bathrooms_interaction'']"
    using set_interaction_columns [OF s5] set_price_per_sqft_columns [OF s4]
      set_ratio_columns [OF s3] filter_price_columns [OF s2] convert_date_columns [OF s1] cols
    by (simp add: raw_columns_def)
  have "set [''country'', ''statezip''] \<subseteq> set (columns d5)"
    by (simp add: c5 raw_columns_def)
  then obtain d6 where s6: "drop_columns d5 [''country'', ''statezip''] = Inr d6"
    using drop_columns_succeeds by blast
  have "columns d6 = filter (\<lambda>k. k \<notin> set [''country'', ''statezip'']) (columns d5)"
    by (rule columns_drop_columns [OF s6])
  then have "set unused_columns \<subseteq> set (columns d6)"
    by (simp add: c5 raw_columns_def unused_columns_def)
  then obtain out where s7: "drop_columns d6 unused_columns = Inr out"
    using drop_columns_succeeds by blast
  have "data_prepared to_datetime csv = Inr out"
    by (simp add: data_prepared_def s1 s2 s3 s4 s5 s6 s7)
  then show ?thesis ..
qed

lemma example_raw_frame: "raw_frame example_csv 7"
  by code_simp

lemma example_date:
  "getitem example_csv ''date'' =
     Inr (ObjCol [Some ''2014-05-02'', Some ''2014-05-02'', Some ''2014-05-03'',
                  Some ''2014-05-04'', Some ''2014-05-05'', Some ''2014-05-06'',
                  Some ''2014-05-07''])"
  by code_simp

text \<open>
  Claim C4, as amended.  On a file with the raw schema whose dates parse,
  \<^verbatim>\<open>data_prepared\<close> returns without an error.  The rows of its result are the rows of
  the file whose price lies in the quantile band; the ratio column is computed for all
  of them, and in each of them that has no bathroom the ratio is \<^verbatim>\<open>inf\<close>,
  \<^verbatim>\<open>-inf\<close> or \<^verbatim>\<open>nan\<close>.  A row without a bathroom whose price is outside the band
  is not in the result at all.
\<close>

theorem zero_bathrooms_ratio_within_band:
  assumes "raw_frame csv n"
    and "getitem csv ''date'' = Inr d" and "to_datetime d = Inr d'" and "col_len d' = col_len d"
  shows "\<exists>out ps beds baths.
           data_prepared to_datetime csv = Inr out \<and>
           getitem csv ''price'' = Inr (NumCol ps) \<and>
           getitem csv ''bedrooms'' = Inr (NumCol beds) \<and>
           getitem csv ''bathrooms'' = Inr (NumCol baths) \<and>
           getitem out ''bedrooms'' = Inr (NumCol (select (price_mask ps) beds)) \<and>
           getitem out ''bathrooms'' = Inr (NumCol (select (price_mask ps) baths)) \<and>
           getitem out ''bedrooms_to_bathrooms_ratio'' =
             Inr (NumCol (map2 fdiv (select (price_mask ps) beds) (select (price_mask ps) baths))) \<and>
           length (select (price_mask ps) beds) = length (select (price_mask ps) baths) \<and>
           (\<forall>i < length (select (price_mask ps) baths).
              select (price_mask ps) baths ! i = Fin 0 \<longrightarrow>
              is_inf_or_nan
                (map2 fdiv (select (price_mask ps) beds) (select (price_mask ps) baths) ! i))"
proof -
  have "\<exists>out. data_prepared to_datetime csv = Inr out"
    using assms by (rule data_prepared_succeeds)
  then obtain out where run: "data_prepared to_datetime csv = Inr out" ..
  from assms(1) have rows: "frame_rows csv n"
    and num: "is_numeric (getitem csv ''bedrooms'')" "is_numeric (getitem csv ''bathrooms'')"
    by (simp_all add: raw_frame_def)
  from num obtain beds baths where
    b0: "getitem csv ''bedrooms'' = Inr (NumCol beds)" and
    ba0: "getitem csv ''bathrooms'' = Inr (NumCol baths)"
    by (blast dest: is_numeric_getitem)
  have len: "length beds = length baths"
    using frame_rows_getitem [OF rows b0] frame_rows_getitem [OF rows ba0] by simp
  from data_prepared_kept_column [OF run, of "''bedrooms''"] b0
  obtain ps where p0: "getitem csv ''price'' = Inr (NumCol ps)"
    and b: "getitem out ''bedrooms'' = Inr (NumCol (select (price_mask ps) beds))"
    by (auto simp: kept_name_def unused_columns_def)
  from data_prepared_kept_column [OF run, of "''bathrooms''"] ba0 p0
  have ba: "getitem out ''bathrooms'' = Inr (NumCol (select (price_mask ps) baths))"
    by (auto simp: kept_name_def unused_columns_def)
  from data_prepared_derived_columns [OF run] b ba
  have r: "getitem out ''bedrooms_to_bathrooms_ratio'' =
      Inr (NumCol (map2 fdiv (select (price_mask ps) beds) (select (price_mask ps) baths)))"
    by auto
  have l: "length (select (price_mask ps) beds) = length (select (price_mask ps) baths)"
    by (rule length_select [OF len])
  have z: "is_inf_or_nan
      (map2 fdiv (select (price_mask ps) beds) (select (price_mask ps) baths) ! i)"
    if "i < length (select (price_mask ps) baths)" "select (price_mask ps) baths ! i = Fin 0"
    for i
    using that l by (simp add: fdiv_by_zero)
  from run p0 b0 ba0 b ba r l z show ?thesis by blast
qed

theorem zero_bathrooms_ratio_within_band_witness:
  "raw_frame example_csv 7 \<and>
   data_prepared Inr example_csv = Inr example_prepared \<and>
   getitem example_prepared ''bathrooms'' = Inr (NumCol [Fin 0, Fin 2, Fin 0, Fin 2, Fin (5 / 2)]) \<and>
   getitem example_prepared ''bedrooms_to_bathrooms_ratio'' =
     Inr (NumCol [PInf, Fin (3 / 2), NaN, Fin 2, Fin (8 / 5)])"
proof -
  have cols: "getitem example_prepared ''bathrooms'' =
      Inr (NumCol [Fin 0, Fin 2, Fin 0, Fin 2, Fin (5 / 2)])"
    "getitem example_prepared ''bedrooms_to_bathrooms_ratio'' =
      Inr (NumCol [PInf, Fin (3 / 2), NaN, Fin 2, Fin (8 / 5)])"
    by code_simp+
  have "\<exists>out. data_prepared Inr example_csv = Inr out"
    using zero_bathrooms_ratio_within_band
      [where to_datetime = Inr and csv = example_csv, OF example_raw_frame example_date refl refl]
    by blast
  then show ?thesis
    using example_raw_frame example_run cols by simp
qed

text \<open>
  The claim as it was stated fails on the sample in which the only house without a
  bathroom is the dearest one: the file has the raw schema and a row with zero
  bathrooms, and every ratio of the result is an ordinary number.
\<close>

theorem zero_bathrooms_outlier_counterexample:
  "raw_frame outlier_csv 7 \<and>
   getitem outlier_csv ''bathrooms'' =
     Inr (NumCol [Fin 1, Fin 1, Fin 0, Fin 2, Fin 1, Fin 2, Fin (5 / 2)]) \<and>
   getitem outlier_csv ''price'' =
     Inr (NumCol [Fin 300000, Fin 100000, Fin 700000, Fin 200000, Fin 400000, Fin 600000,
                  Fin 500000]) \<and>
   column_of (data_prepared Inr outlier_csv) ''bathrooms'' =
     Inr (NumCol [Fin 1, Fin 2, Fin 1, Fin 2, Fin (5 / 2)]) \<and>
   column_of (data_prepared Inr outlier_csv) ''bedrooms_to_bathrooms_ratio'' =
     Inr (NumCol [Fin 3, Fin (3 / 2), Fin 2, Fin 2, Fin (8 / 5)])"
  by code_simp

section \<open>Properties of the training cells\<close>

lemma py_range_estimators: "py_range 25 100 25 = [25, 50, 75]"
  by code_simp

lemma py_range_depths: "py_range 10 50 10 = [10, 20, 30, 40]"
  by code_simp

lemma notebook_grid:
  "parameter_grid [(''randomforestregressor__n_estimators'', [25, 50, 75]),
                   (''randomforestregressor__max_depth'', [10, 20, 30, 40])] =
   concat (map (\<lambda>d. map (\<lambda>n. [(''randomforestregressor__max_depth'', d),
                                  (''randomforestregressor__n_estimators'', n)]) [25, 50, 75])
               [10, 20, 30, 40])"
  by code_simp

lemma partition_depth:
  "partition_dunder [] ''randomforestregressor__max_depth'' =
     Some (''randomforestregressor'', ''max_depth'')"
  by code_simp

lemma partition_estimators:
  "partition_dunder [] ''randomforestregressor__n_estimators'' =
     Some (''randomforestregressor'', ''n_estimators'')"
  by code_simp

lemma set_params_grid:
  "set_params imputer_pipeline [(''randomforestregressor__max_depth'', d),
                               (''randomforestregressor__n_estimators'', n)] =
     Inr (grid_pipeline n d)"
  by (simp add: imputer_pipeline_def default_forest_def grid_pipeline_def set_param_def
        partition_depth partition_estimators set_forest_param_def)

lemma score_candidates_Inr:
  "score_candidates lib e k Xs ys cs = Inr rs \<Longrightarrow>
   map fst rs = cs \<and>
   (\<forall>(c, s) \<in> set rs. \<exists>e'. set_params e c = Inr e' \<and> cv_mean_score lib e' k Xs ys = Inr s)"
proof (induction cs arbitrary: rs)
  case Nil
  then show ?case by simp
next
  case (Cons c cs)
  from Cons.prems obtain e' s rest where
    e': "set_params e c = Inr e'" and s: "cv_mean_score lib e' k Xs ys = Inr s" and
    rest: "score_candidates lib e k Xs ys cs = Inr rest" and rs: "rs = (c, s) # rest"
    by (auto simp: bind_err_eq_Inr)
  from Cons.IH [OF rest] e' s rs show ?case by auto
qed

lemma best_of_mem: "best_of b cs \<in> set (b # cs)"
  by (induction cs arbitrary: b) auto

lemma best_of_greatest: "c \<in> set (b # cs) \<Longrightarrow> snd c \<le> snd (best_of b cs)"
proof (induction cs arbitrary: b c)
  case Nil
  then show ?case by simp
next
  case (Cons a cs)
  define b' where "b' = (if snd b < snd a then a else b)"
  have top: "snd b' \<le> snd (best_of b' cs)"
    using Cons.IH [where b = b' and c = b'] by simp
  have "snd b \<le> snd b'" "snd a \<le> snd b'"
    by (simp_all add: b'_def)
  with top have start: "snd b \<le> snd (best_of b' cs)" and other: "snd a \<le> snd (best_of b' cs)"
    by simp_all
  from Cons.prems consider "c = b" | "c = a" | "c \<in> set cs" by auto
  then have "snd c \<le> snd (best_of b' cs)"
  proof cases
    case 1
    with start show ?thesis by simp
  next
    case 2
    with other show ?thesis by simp
  next
    case 3
    then show ?thesis using Cons.IH [where b = b' and c = c] by simp
  qed
  then show ?case by (simp add: b'_def)
qed

lemma grid_search_fit_Inr:
  assumes "grid_search_fit lib e grid k True Xs ys = Inr g"
  shows "\<exists>r rs e' m.
           score_candidates lib e k Xs ys (parameter_grid grid) = Inr (r # rs) \<and>
           cv_results g = r # rs \<and> best_params g = fst (best_of r rs) \<and>
           set_params e (best_params g) = Inr e' \<and> fit lib e' Xs ys = Inr m \<and>
           best_estimator g = Some m \<and>
           gs_estimator g = e \<and> gs_param_grid g = grid \<and> gs_cv g = k \<and> gs_refit g"
proof -
  from assms obtain results where
    sc: "score_candidates lib e k Xs ys (parameter_grid grid) = Inr results" and
    rest: "(case results of
         [] \<Rightarrow> Inl ValueError
       | r # rs \<Rightarrow>
           let best = fst (best_of r rs) in
           bind_err (set_params e best) (\<lambda>e'.
           bind_err (if True then bind_err (fit lib e' Xs ys) (\<lambda>m. Inr (Some m)) else Inr None)
             (\<lambda>m.
               Inr \<lparr>gs_estimator = e, gs_param_grid = grid, gs_cv = k, gs_refit = True,
                    cv_results = results, best_params = best, best_estimator = m\<rparr>))) = Inr g"
    by (auto simp: grid_search_fit_def bind_err_eq_Inr)
  from rest obtain r rs where results: "results = r # rs"
    by (cases results) auto
  from rest obtain e' m where
    e': "set_params e (fst (best_of r rs)) = Inr e'" and m: "fit lib e' Xs ys = Inr m" and
    g: "g = \<lparr>gs_estimator = e, gs_param_grid = grid, gs_cv = k, gs_refit = True,
             cv_results = r # rs, best_params = fst (best_of r rs), best_estimator = Some m\<rparr>"
    unfolding results by (auto simp: bind_err_eq_Inr Let_def)
  show ?thesis
    using sc e' m by (simp add: results g)
qed

lemma cell_30_Inr:
  assumes "cell_30 lib td csv = Inr nb"
  shows "\<exists>df Xf. data_prepared td csv = Inr df \<and> drop_columns df [''price''] = Inr Xf \<and>
           X_all nb = Xf \<and> getitem df ''price'' = Inr (y_all nb) \<and>
           train_test_split lib (X_all nb) (y_all nb) (3 / 10) 42 =
             Inr (X_train nb, X_test nb, y_train nb, y_test nb) \<and>
           rf_reg nb = None \<and> rf_score nb = None \<and> rf nb = None \<and> params nb = None \<and>
           model nb = None"
  using assms by (auto simp: cell_30_def bind_err_eq_Inr)

lemma cell_31_Inr:
  assumes "cell_31 lib nb = Inr nb'"
  shows "\<exists>a b c d m s.
           train_test_split lib (X_all nb) (y_all nb) (2 / 10) 42 = Inr (a, b, c, d) \<and>
           fit lib default_forest a c = Inr m \<and> score lib m b d = Inr s \<and>
           nb' = nb\<lparr>X_train := a, X_test := b, y_train := c, y_test := d,
                     rf_reg := Some (default_forest, m), rf_score := Some s\<rparr>"
  using assms by (auto simp: cell_31_def bind_err_eq_Inr)

lemma cell_33_Inr:
  assumes "cell_33 lib nb = Inr nb'"
  shows "\<exists>m. fit lib imputer_pipeline (X_train nb) (y_train nb) = Inr m \<and>
           nb' = nb\<lparr>rf := Some (imputer_pipeline, m)\<rparr>"
  using assms by (auto simp: cell_33_def bind_err_eq_Inr)

lemma cell_41_Inr:
  assumes "cell_41 lib nb = Inr nb'"
  shows "\<exists>e m grid g. rf nb = Some (e, m) \<and> params nb = Some grid \<and>
           grid_search_fit lib e grid 5 True (X_train nb) (y_train nb) = Inr g \<and>
           nb' = nb\<lparr>model := Some g\<rparr>"
  using assms by (auto simp: cell_41_def bind_err_eq_Inr split: option.splits)

lemma run_notebook_steps:
  assumes "run_notebook lib td csv = Inr nb"
  obtains nb0 nb1 nb2 where
    "cell_30 lib td csv = Inr nb0" "cell_31 lib nb0 = Inr nb1" "cell_33 lib nb1 = Inr nb2"
    "cell_41 lib (cell_38 nb2) = Inr nb"
  using assms unfolding run_notebook_def bind_err_eq_Inr by blast

text \<open>What the cells leave in the global variables after a run of the notebook.\<close>

lemma run_notebook_state:
  assumes run: "run_notebook lib td csv = Inr nb"
  shows "\<exists>nb0 m1 s1 m2 g.
           cell_30 lib td csv = Inr nb0 \<and>
           train_test_split lib (X_all nb0) (y_all nb0) (3 / 10) 42 =
             Inr (X_train nb0, X_test nb0, y_train nb0, y_test nb0) \<and>
           X_all nb = X_all nb0 \<and> y_all nb = y_all nb0 \<and>
           train_test_split lib (X_all nb) (y_all nb) (2 / 10) 42 =
             Inr (X_train nb, X_test nb, y_train nb, y_test nb) \<and>
           rf_reg nb = Some (default_forest, m1) \<and>
           fit lib default_forest (X_train nb) (y_train nb) = Inr m1 \<and>
           rf_score nb = Some s1 \<and> score lib m1 (X_test nb) (y_test nb) = Inr s1 \<and>
           rf nb = Some (imputer_pipeline, m2) \<and>
           fit lib imputer_pipeline (X_train nb) (y_train nb) = Inr m2 \<and>
           model nb = Some g \<and>
           grid_search_fit lib imputer_pipeline
             [(''randomforestregressor__n_estimators'', [25, 50, 75]),
              (''randomforestregressor__max_depth'', [10, 20, 30, 40])]
             5 True (X_train nb) (y_train nb) = Inr g"
proof -
  from run obtain nb0 nb1 nb2 where
    c30: "cell_30 lib td csv = Inr nb0" and c31: "cell_31 lib nb0 = Inr nb1" and
    c33: "cell_33 lib nb1 = Inr nb2" and c41: "cell_41 lib (cell_38 nb2) = Inr nb"
    by (rule run_notebook_steps)
  from cell_30_Inr [OF c30] have
    split0: "train_test_split lib (X_all nb0) (y_all nb0) (3 / 10) 42 =
      Inr (X_train nb0, X_test nb0, y_train nb0, y_test nb0)"
    by blast
  from cell_31_Inr [OF c31] obtain a b c d m1 s1 where
    split1: "train_test_split lib (X_all nb0) (y_all nb0) (2 / 10) 42 = Inr (a, b, c, d)" and
    fit1: "fit lib default_forest a c = Inr m1" and score1: "score lib m1 b d = Inr s1" and
    nb1: "nb1 = nb0\<lparr>X_train := a, X_test := b, y_train := c, y_test := d,
                     rf_reg := Some (default_forest, m1), rf_score := Some s1\<rparr>"
    by blast
  from cell_33_Inr [OF c33] obtain m2 where
    fit2: "fit lib imputer_pipeline (X_train nb1) (y_train nb1) = Inr m2" and
    nb2: "nb2 = nb1\<lparr>rf := Some (imputer_pipeline, m2)\<rparr>"
    by blast
  from cell_41_Inr [OF c41] obtain e m grid g where
    rf: "rf (cell_38 nb2) = Some (e, m)" and grid: "params (cell_38 nb2) = Some grid" and
    gs: "grid_search_fit lib e grid 5 True (X_train (cell_38 nb2)) (y_train (cell_38 nb2)) = Inr g"
    and nb: "nb = (cell_38 nb2)\<lparr>model := Some g\<rparr>"
    by blast
  from rf have e: "e = imputer_pipeline"
    by (simp add: cell_38_def nb2)
  from grid have grid': "grid = [(''randomforestregressor__n_estimators'', [25, 50, 75]),
      (''randomforestregressor__max_depth'', [10, 20, 30, 40])]"
    by (simp add: cell_38_def py_range_estimators py_range_depths)
  have fields: "X_all nb = X_all nb0" "y_all nb = y_all nb0" "X_train nb = a" "X_test nb = b"
    "y_train nb = c" "y_test nb = d" "rf_reg nb = Some (default_forest, m1)"
    "rf_score nb = Some s1" "rf nb = Some (imputer_pipeline, m2)" "model nb = Some g"
    by (simp_all add: nb cell_38_def nb2 nb1)
  have train: "X_train (cell_38 nb2) = a" "y_train (cell_38 nb2) = c"
    "X_train nb1 = a" "y_train nb1 = c"
    by (simp_all add: cell_38_def nb2 nb1)
  show ?thesis
    using c30 split0 split1 fit1 score1 fit2 gs
    by (simp add: fields train e grid')
qed

lemma run_notebook_features:
  assumes run: "run_notebook lib td csv = Inr nb"
  shows "\<exists>df. data_prepared td csv = Inr df \<and> drop_columns df [''price''] = Inr (X_all nb) \<and>
           getitem df ''price'' = Inr (y_all nb)"
proof -
  from run_notebook_state [OF run] obtain nb0 where
    c30: "cell_30 lib td csv = Inr nb0" and same: "X_all nb = X_all nb0" "y_all nb = y_all nb0"
    by blast
  from cell_30_Inr [OF c30] show ?thesis
    unfolding same by blast
qed

lemma run_notebook_feature_columns:
  assumes run: "run_notebook lib td csv = Inr nb" and raw: "columns csv = raw_columns"
  shows "columns (X_all nb) = feature_columns"
proof -
  from run_notebook_features [OF run] obtain df where
    df: "data_prepared td csv = Inr df" and Xf: "drop_columns df [''price''] = Inr (X_all nb)"
    by blast
  have "columns (X_all nb) = filter (\<lambda>k. k \<notin> set [''price'']) (''price'' # feature_columns)"
    using columns_drop_columns [OF Xf] data_prepared_raw_columns [OF raw df] by simp
  then show ?thesis
    by (simp add: feature_columns_def raw_features_def)
qed

lemma example_notebook_runs: "\<not> isl (run_notebook toy_sklearn Inr example_csv)"
  by code_simp

lemma example_notebook: "\<exists>nb. run_notebook toy_sklearn Inr example_csv = Inr nb"
  using example_notebook_runs by (cases "run_notebook toy_sklearn Inr example_csv") auto

section \<open>The hyperparameter search\<close>

text \<open>
  Claim C6.  After a run of the notebook, \<^verbatim>\<open>model\<close> is a grid search with five
  folds and refitting.  Its candidates are exactly the twelve combinations of
  \<^verbatim>\<open>n_estimators\<close> in 25, 50, 75 with \<^verbatim>\<open>max_depth\<close> in 10, 20, 30, 40; the score
  recorded for a combination is the five-fold cross-validation score of the pipeline
  with these two parameters on the training partition of the second split; the chosen
  combination has the highest recorded score, and the estimator kept is that
  combination fitted on the whole training partition.
\<close>

theorem grid_search_explores_grid:
  assumes "run_notebook lib to_datetime csv = Inr nb"
  shows "\<exists>g. model nb = Some g \<and> gs_cv g = 5 \<and> gs_refit g \<and>
           gs_param_grid g = [(''randomforestregressor__n_estimators'', [25, 50, 75]),
                              (''randomforestregressor__max_depth'', [10, 20, 30, 40])] \<and>
           map fst (cv_results g) =
             concat (map (\<lambda>d. map (\<lambda>n. [(''randomforestregressor__max_depth'', d),
                                            (''randomforestregressor__n_estimators'', n)])
                                   [25, 50, 75])
                         [10, 20, 30, 40]) \<and>
           length (cv_results g) = 12 \<and>
           (\<forall>n \<in> {25, 50, 75}. \<forall>d \<in> {10, 20, 30, 40}. \<exists>s.
              ([(''randomforestregressor__max_depth'', d),
                (''randomforestregressor__n_estimators'', n)], s) \<in> set (cv_results g) \<and>
              cv_mean_score lib (grid_pipeline n d) 5 (X_train nb) (y_train nb) = Inr s) \<and>
           (\<exists>n \<in> {25, 50, 75}. \<exists>d \<in> {10, 20, 30, 40}. \<exists>s m.
              best_params g = [(''randomforestregressor__max_depth'', d),
                               (''randomforestregressor__n_estimators'', n)] \<and>
              (best_params g, s) \<in> set (cv_results g) \<and>
              (\<forall>(c, s') \<in> set (cv_results g). s' \<le> s) \<and>
              fit lib (grid_pipeline n d) (X_train nb) (y_train nb) = Inr m \<and>
              best_estimator g = Some m) \<and>
           train_test_split lib (X_all nb) (y_all nb) (2 / 10) 42 =
             Inr (X_train nb, X_test nb, y_train nb, y_test nb)"
proof -
  let ?grid = "[(''randomforestregressor__n_estimators'', [25, 50, 75]),
                (''randomforestregressor__max_depth'', [10, 20, 30, 40])]"
  let ?cand = "\<lambda>d n. [(''randomforestregressor__max_depth'', d),
                       (''randomforestregressor__n_estimators'', n :: int)]"
  let ?cands = "concat (map (\<lambda>d. map (\<lambda>n. ?cand d n) [25, 50, 75]) [10, 20, 30, 40 :: int])"
  from run_notebook_state [OF assms] obtain g where
    model: "model nb = Some g" and
    split: "train_test_split lib (X_all nb) (y_all nb) (2 / 10) 42 =
      Inr (X_train nb, X_test nb, y_train nb, y_test nb)" and
    gs: "grid_search_fit lib imputer_pipeline ?grid 5 True (X_train nb) (y_train nb) = Inr g"
    by blast
  from grid_search_fit_Inr [OF gs] obtain r rs e' m where
    sc: "score_candidates lib imputer_pipeline 5 (X_train nb) (y_train nb) (parameter_grid ?grid) =
      Inr (r # rs)" and
    res: "cv_results g = r # rs" and best: "best_params g = fst (best_of r rs)" and
    e': "set_params imputer_pipeline (best_params g) = Inr e'" and
    m: "fit lib e' (X_train nb) (y_train nb) = Inr m" and
    bm: "best_estimator g = Some m" and
    conf: "gs_param_grid g = ?grid" "gs_cv g = 5" "gs_refit g"
    by blast
  from score_candidates_Inr [OF sc] have
    cands: "map fst (cv_results g) = ?cands" and
    scored: "\<And>c s. (c, s) \<in> set (cv_results g) \<Longrightarrow>
      \<exists>e. set_params imputer_pipeline c = Inr e \<and>
          cv_mean_score lib e 5 (X_train nb) (y_train nb) = Inr s"
    by (auto simp: res notebook_grid)
  have len: "length (cv_results g) = 12"
    using arg_cong [OF cands, of length] by simp
  have each: "\<exists>s. (?cand d n, s) \<in> set (cv_results g) \<and>
      cv_mean_score lib (grid_pipeline n d) 5 (X_train nb) (y_train nb) = Inr s"
    if "n \<in> {25, 50, 75}" "d \<in> {10, 20, 30, 40}" for n d
  proof -
    from that have "?cand d n \<in> set ?cands" by auto
    then have "?cand d n \<in> fst ` set (cv_results g)"
      using cands by (metis set_map)
    then obtain s where s: "(?cand d n, s) \<in> set (cv_results g)" by force
    from scored [OF s] obtain e where
      e: "set_params imputer_pipeline (?cand d n) = Inr e" and
      cv: "cv_mean_score lib e 5 (X_train nb) (y_train nb) = Inr s"
      by blast
    from e set_params_grid [of d n] have "e = grid_pipeline n d"
      by (simp only: sum.inject)
    with cv s show ?thesis by blast
  qed
  have bmem: "best_of r rs \<in> set (cv_results g)"
    using best_of_mem [of r rs] by (simp add: res)
  then have "best_params g \<in> fst ` set (cv_results g)"
    using best by force
  then have "best_params g \<in> set ?cands"
    using cands by (metis set_map)
  then obtain n d where nd: "n \<in> {25, 50, 75}" "d \<in> {10, 20, 30, 40}"
    and bp: "best_params g = ?cand d n"
    by auto
  have e'_eq: "e' = grid_pipeline n d"
    using e' set_params_grid [of d n] unfolding bp by (simp only: sum.inject)
  have "snd c \<le> snd (best_of r rs)" if "c \<in> set (cv_results g)" for c
    using that best_of_greatest [of c r rs] by (simp add: res)
  then have top: "\<forall>(c, s') \<in> set (cv_results g). s' \<le> snd (best_of r rs)"
    by fastforce
  have "(best_params g, snd (best_of r rs)) \<in> set (cv_results g)"
    using bmem best by simp
  with nd bp top m bm e'_eq
  have chosen: "\<exists>n \<in> {25, 50, 75}. \<exists>d \<in> {10, 20, 30, 40}. \<exists>s m.
      best_params g = ?cand d n \<and> (best_params g, s) \<in> set (cv_results g) \<and>
      (\<forall>(c, s') \<in> set (cv_results g). s' \<le> s) \<and>
      fit lib (grid_pipeline n d) (X_train nb) (y_train nb) = Inr m \<and>
      best_estimator g = Some m"
    by blast
  from model conf cands len each chosen split show ?thesis by blast
qed

theorem grid_search_explores_grid_witness:
  "\<exists>nb g. run_notebook toy_sklearn Inr example_csv = Inr nb \<and> model nb = Some g \<and>
     length (cv_results g) = 12 \<and> gs_cv g = 5 \<and> gs_refit g"
proof -
  from example_notebook obtain nb where run: "run_notebook toy_sklearn Inr example_csv = Inr nb" ..
  from grid_search_explores_grid [OF run] run show ?thesis by blast
qed

section \<open>The two splits\<close>

lemma score_candidates_cong:
  assumes "cv_mean_score lib' = cv_mean_score lib"
  shows "score_candidates lib' e k Xs ys cs = score_candidates lib e k Xs ys cs"
  by (induction cs) (simp_all add: assms)

lemma grid_search_fit_cong:
  assumes "cv_mean_score lib' = cv_mean_score lib" "fit lib' = fit lib"
  shows "grid_search_fit lib' e grid k r Xs ys = grid_search_fit lib e grid k r Xs ys"
  unfolding grid_search_fit_def score_candidates_cong [OF assms(1)] assms(2) by (rule refl)

text \<open>
  Claim C7.  The features are the prepared frame without its price column and the
  target is its price column.  Cell 30 splits them with test fraction 0.3 and seed 42.  Cell 31 splits the same features and target again with test fraction 0.2
  and seed 42 and assigns the result to the same four variables, which then keep
  it.  The forest \<^verbatim>\<open>rf_reg\<close>, the pipeline \<^verbatim>\<open>rf\<close> and the grid search
  \<^verbatim>\<open>model\<close> are fitted on the training part of that second split, and
  \<^verbatim>\<open>rf_reg\<close> is scored on its test part.  Whatever the first split returned, the
  variables end up the same.
\<close>

theorem models_fitted_on_second_split:
  assumes "run_notebook lib to_datetime csv = Inr nb"
  shows "(\<exists>df. data_prepared to_datetime csv = Inr df \<and>
            drop_columns df [''price''] = Inr (X_all nb) \<and>
            getitem df ''price'' = Inr (y_all nb)) \<and>
         (\<exists>nb0 m1 s1 m2 g.
           cell_30 lib to_datetime csv = Inr nb0 \<and>
           train_test_split lib (X_all nb0) (y_all nb0) (3 / 10) 42 =
             Inr (X_train nb0, X_test nb0, y_train nb0, y_test nb0) \<and>
           X_all nb = X_all nb0 \<and> y_all nb = y_all nb0 \<and>
           train_test_split lib (X_all nb) (y_all nb) (2 / 10) 42 =
             Inr (X_train nb, X_test nb, y_train nb, y_test nb) \<and>
           rf_reg nb = Some (default_forest, m1) \<and>
           fit lib default_forest (X_train nb) (y_train nb) = Inr m1 \<and>
           rf_score nb = Some s1 \<and> score lib m1 (X_test nb) (y_test nb) = Inr s1 \<and>
           rf nb = Some (imputer_pipeline, m2) \<and>
           fit lib imputer_pipeline (X_train nb) (y_train nb) = Inr m2 \<and>
           model nb = Some g \<and>
           grid_search_fit lib imputer_pipeline
             [(''randomforestregressor__n_estimators'', [25, 50, 75]),
              (''randomforestregressor__max_depth'', [10, 20, 30, 40])]
             5 True (X_train nb) (y_train nb) = Inr g \<and>
           (\<forall>other nb'.
              run_notebook
                (lib\<lparr>train_test_split := \<lambda>Xs ys test_size seed.
                        if test_size = 3 / 10 then other Xs ys seed
                        else train_test_split lib Xs ys test_size seed\<rparr>)
                to_datetime csv = Inr nb' \<longrightarrow> nb' = nb))"
proof -
  have same: "nb' = nb"
    if run': "run_notebook
        (lib\<lparr>train_test_split := \<lambda>Xs ys test_size seed.
                if test_size = 3 / 10 then other Xs ys seed
                else train_test_split lib Xs ys test_size seed\<rparr>)
        to_datetime csv = Inr nb'"
    for other nb'
  proof -
    define lib' where "lib' = lib\<lparr>train_test_split := \<lambda>Xs ys test_size seed.
        if test_size = 3 / 10 then other Xs ys seed
        else train_test_split lib Xs ys test_size seed\<rparr>"
    have lib': "fit lib' = fit lib" "score lib' = score lib"
      "cv_mean_score lib' = cv_mean_score lib"
      by (simp_all add: lib'_def)
    have split': "train_test_split lib' Xs ys (2 / 10) 42 = train_test_split lib Xs ys (2 / 10) 42"
      for Xs ys
      by (simp add: lib'_def)
    from assms obtain nb0 nb1 nb2 where
      c30: "cell_30 lib to_datetime csv = Inr nb0" and c31: "cell_31 lib nb0 = Inr nb1" and
      c33: "cell_33 lib nb1 = Inr nb2" and c41: "cell_41 lib (cell_38 nb2) = Inr nb"
      by (rule run_notebook_steps)
    from run' obtain nb0' nb1' nb2' where
      c30': "cell_30 lib' to_datetime csv = Inr nb0'" and c31': "cell_31 lib' nb0' = Inr nb1'" and
      c33': "cell_33 lib' nb1' = Inr nb2'" and c41': "cell_41 lib' (cell_38 nb2') = Inr nb'"
      unfolding lib'_def [symmetric] by (rule run_notebook_steps)
    from c30 c30' have x: "X_all nb0' = X_all nb0" "y_all nb0' = y_all nb0"
      and rest: "rf_reg nb0' = rf_reg nb0" "rf_score nb0' = rf_score nb0" "rf nb0' = rf nb0"
        "params nb0' = params nb0" "model nb0' = model nb0"
      by (auto simp: cell_30_def bind_err_eq_Inr)
    from cell_31_Inr [OF c31] obtain a b c d m s where
      sp: "train_test_split lib (X_all nb0) (y_all nb0) (2 / 10) 42 = Inr (a, b, c, d)" and
      ft: "fit lib default_forest a c = Inr m" and sc: "score lib m b d = Inr s" and
      n1: "nb1 = nb0\<lparr>X_train := a, X_test := b, y_train := c, y_test := d,
                     rf_reg := Some (default_forest, m), rf_score := Some s\<rparr>"
      by blast
    from cell_31_Inr [OF c31'] obtain a' b' c' d' m' s' where
      sp': "train_test_split lib' (X_all nb0') (y_all nb0') (2 / 10) 42 = Inr (a', b', c', d')" and
      ft': "fit lib' default_forest a' c' = Inr m'" and sc': "score lib' m' b' d' = Inr s'" and
      n1': "nb1' = nb0'\<lparr>X_train := a', X_test := b', y_train := c', y_test := d',
                     rf_reg := Some (default_forest, m'), rf_score := Some s'\<rparr>"
      by blast
    from sp sp' have abcd: "a' = a" "b' = b" "c' = c" "d' = d"
      unfolding split' x by simp_all
    from ft ft' have m: "m' = m" by (simp add: lib' abcd)
    from sc sc' have s: "s' = s" by (simp add: lib' abcd m)
    have nb1: "nb1' = nb1"
      unfolding n1 n1' abcd m s using x rest by (cases nb0; cases nb0') simp
    have "cell_33 lib' nb1 = cell_33 lib nb1"
      by (simp add: cell_33_def lib')
    with c33 c33' nb1 have nb2: "nb2' = nb2" by simp
    have "cell_41 lib' (cell_38 nb2) = cell_41 lib (cell_38 nb2)"
      unfolding cell_41_def grid_search_fit_cong [OF lib'(3) lib'(1)] by (rule refl)
    with c41 c41' nb2 show ?thesis by simp
  qed
  from run_notebook_state [OF assms] same
  have "\<exists>nb0 m1 s1 m2 g.
           cell_30 lib to_datetime csv = Inr nb0 \<and>
           train_test_split lib (X_all nb0) (y_all nb0) (3 / 10) 42 =
             Inr (X_train nb0, X_test nb0, y_train nb0, y_test nb0) \<and>
           X_all nb = X_all nb0 \<and> y_all nb = y_all nb0 \<and>
           train_test_split lib (X_all nb) (y_all nb) (2 / 10) 42 =
             Inr (X_train nb, X_test nb, y_train nb, y_test nb) \<and>
           rf_reg nb = Some (default_forest, m1) \<and>
           fit lib default_forest (X_train nb) (y_train nb) = Inr m1 \<and>
           rf_score nb = Some s1 \<and> score lib m1 (X_test nb) (y_test nb) = Inr s1 \<and>
           rf nb = Some (imputer_pipeline, m2) \<and>
           fit lib imputer_pipeline (X_train nb) (y_train nb) = Inr m2 \<and>
           model nb = Some g \<and>
           grid_search_fit lib imputer_pipeline
             [(''randomforestregressor__n_estimators'', [25, 50, 75]),
              (''randomforestregressor__max_depth'', [10, 20, 30, 40])]
             5 True (X_train nb) (y_train nb) = Inr g \<and>
           (\<forall>other nb'.
              run_notebook
                (lib\<lparr>train_test_split := \<lambda>Xs ys test_size seed.
                        if test_size = 3 / 10 then other Xs ys seed
                        else train_test_split lib Xs ys test_size seed\<rparr>)
                to_datetime csv = Inr nb' \<longrightarrow> nb' = nb)"
    by blast
  with run_notebook_features [OF assms] show ?thesis by (rule conjI)
qed

theorem models_fitted_on_second_split_witness:
  "\<exists>nb. run_notebook toy_sklearn Inr example_csv = Inr nb \<and>
     (\<exists>df. data_prepared Inr example_csv = Inr df \<and>
        drop_columns df [''price''] = Inr (X_all nb) \<and>
        getitem df ''price'' = Inr (y_all nb)) \<and>
     train_test_split toy_sklearn (X_all nb) (y_all nb) (2 / 10) 42 =
       Inr (X_train nb, X_test nb, y_train nb, y_test nb) \<and>
     (\<exists>m1. rf_reg nb = Some (default_forest, m1) \<and>
        fit toy_sklearn default_forest (X_train nb) (y_train nb) = Inr m1)"
proof -
  from example_notebook obtain nb where run: "run_notebook toy_sklearn Inr example_csv = Inr nb" ..
  from models_fitted_on_second_split [OF run] run show ?thesis by blast
qed

section \<open>Formatting\<close>

declare digits.simps [simp del] group_thousands.simps [simp del]

lemma is_digit_digit_char: "d < 10 \<Longrightarrow> is_digit (digit_char d)"
proof -
  assume "d < 10"
  then have "d \<in> {0, 1, 2, 3, 4, 5, 6, 7, 8, 9}" by auto
  then show ?thesis
    by (auto simp: digit_char_def is_digit_def)
qed

lemma is_digit_mod: "is_digit (digit_char (n mod 10))"
  by (simp add: is_digit_digit_char)

lemma digits_all_digit: "list_all is_digit (digits n)"
  by (induction n rule: digits.induct) (subst digits.simps, simp add: is_digit_digit_char)

lemma digits_below_10: "n < 10 \<Longrightarrow> length (digits n) = 1"
  by (subst digits.simps) simp

lemma digits_below_100: "n < 100 \<Longrightarrow> length (digits n) \<in> {1, 2}"
  by (subst digits.simps) (simp add: digits_below_10)

lemma digits_below_1000: "n < 1000 \<Longrightarrow> length (digits n) \<in> {1, 2, 3}"
proof -
  assume "n < 1000"
  then have "n div 10 < 100" by simp
  from digits_below_100 [OF this] show ?thesis
    by (subst digits.simps) auto
qed

lemma comma_groups_append:
  "comma_groups u \<Longrightarrow> is_digit a \<Longrightarrow> is_digit b \<Longrightarrow> is_digit c \<Longrightarrow>
   comma_groups (u @ [CHR '','', a, b, c])"
  by (induction u rule: comma_groups.induct) simp_all

lemma pad3_digits: "\<exists>a b c. pad3 n = [a, b, c] \<and> is_digit a \<and> is_digit b \<and> is_digit c"
  by (simp add: pad3_def is_digit_digit_char)

lemma grouped_group_thousands: "grouped (group_thousands n)"
proof (induction n rule: group_thousands.induct)
  case (1 n)
  show ?case
  proof (cases "n < 1000")
    case True
    then have "group_thousands n = digits n"
      by (subst group_thousands.simps) simp
    moreover have "length (digits n) \<in> {1, 2, 3}"
      by (rule digits_below_1000 [OF True])
    ultimately show ?thesis
      unfolding grouped_def using digits_all_digit [of n]
      by (intro bexI [of _ "length (digits n)"]) simp_all
  next
    case False
    from pad3_digits obtain a b c where
      pad: "pad3 (n mod 1000) = [a, b, c]" and dig: "is_digit a" "is_digit b" "is_digit c"
      by blast
    from False have eq: "group_thousands n = group_thousands (n div 1000) @ [CHR '','', a, b, c]"
      by (subst group_thousands.simps) (simp add: pad)
    from "1.IH" [OF False] obtain k where k: "k \<in> {1, 2, 3}"
      "k \<le> length (group_thousands (n div 1000))"
      "list_all is_digit (take k (group_thousands (n div 1000)))"
      "comma_groups (drop k (group_thousands (n div 1000)))"
      unfolding grouped_def by blast
    show ?thesis
      unfolding grouped_def eq using k comma_groups_append [OF k(4) dig]
      by (intro bexI [of _ k]) simp_all
  qed
qed

lemma grouped_nonempty: "grouped s \<Longrightarrow> 1 \<le> length s"
  by (auto simp: grouped_def)

lemma is_currency_shape:
  assumes "grouped ip" "is_digit d1" "is_digit d2"
  shows "is_currency (''$'' @ ip @ [CHR ''.'', d1, d2])"
  using assms grouped_nonempty [OF assms(1)] by (simp add: is_currency_def nth_append)

lemma is_currency_format:
  assumes "0 \<le> p"
  shows "is_currency (''$'' @ format_comma_2f (Fin p))"
proof -
  define c where "c = nat (round_half_even (\<bar>p\<bar> * 100))"
  define ip where "ip = group_thousands (c div 100)"
  have fmt: "format_comma_2f (Fin p) =
      ip @ [CHR ''.'', digit_char (c div 10 mod 10), digit_char (c mod 10)]"
    using assms by (simp add: c_def ip_def Let_def)
  have g: "grouped ip"
    unfolding ip_def by (rule grouped_group_thousands)
  show ?thesis
    unfolding fmt by (rule is_currency_shape [OF g is_digit_mod is_digit_mod])
qed

subsection \<open>Reading a formatted price back\<close>

lemma digit_value_digit_char: "d < 10 \<Longrightarrow> digit_value (digit_char d) = d"
proof -
  assume "d < 10"
  then have "d \<in> {0, 1, 2, 3, 4, 5, 6, 7, 8, 9}" by auto
  then show ?thesis
    by (auto simp: digit_char_def digit_value_def)
qed

lemma read_digits_append: "read_digits a (s @ t) = read_digits (read_digits a s) t"
  by (simp add: read_digits_def)

lemma read_digits_digit: "d < 10 \<Longrightarrow> read_digits a [digit_char d] = 10 * a + d"
  by (simp add: read_digits_def is_digit_digit_char digit_value_digit_char)

lemma read_digits_separator:
  "read_digits a (CHR '','' # s) = read_digits a s"
  "read_digits a (CHR ''.'' # s) = read_digits a s"
  "read_digits a (CHR ''$'' # s) = read_digits a s"
  by (simp_all add: read_digits_def is_digit_def)

lemma read_digits_digits: "read_digits 0 (digits n) = n"
proof (induction n rule: digits.induct)
  case (1 n)
  show ?case
  proof (cases "n < 10")
    case True
    then show ?thesis
      by (subst digits.simps) (simp add: read_digits_digit)
  next
    case False
    have "read_digits 0 (digits n) =
        read_digits (read_digits 0 (digits (n div 10))) [digit_char (n mod 10)]"
      using False by (subst digits.simps) (simp add: read_digits_append)
    also have "\<dots> = 10 * (n div 10) + n mod 10"
      using "1.IH" [OF False] by (simp add: read_digits_digit)
    finally show ?thesis by simp
  qed
qed

lemma read_digits_two:
  "x < 10 \<Longrightarrow> y < 10 \<Longrightarrow> read_digits a [digit_char x, digit_char y] = 10 * (10 * a + x) + y"
  by (simp add: read_digits_def is_digit_digit_char digit_value_digit_char)

lemma mod_100: "(n :: nat) mod 100 = 10 * (n div 10 mod 10) + n mod 10"
  using mod_mult2_eq [of n 10 10] by simp

lemma read_digits_pad3:
  assumes "r < 1000"
  shows "read_digits a (pad3 r) = 1000 * a + r"
proof -
  from assms have hundreds: "r div 100 mod 10 = r div 100"
    by simp
  have "read_digits a (pad3 r) =
      10 * (10 * (10 * a + r div 100 mod 10) + r div 10 mod 10) + r mod 10"
    by (simp add: pad3_def read_digits_def is_digit_digit_char digit_value_digit_char)
  also have "\<dots> = 1000 * a + (100 * (r div 100) + r mod 100)"
    by (simp add: hundreds mod_100)
  finally show ?thesis by simp
qed

lemma read_digits_group_thousands: "read_digits 0 (group_thousands n) = n"
proof (induction n rule: group_thousands.induct)
  case (1 n)
  show ?case
  proof (cases "n < 1000")
    case True
    then show ?thesis
      by (subst group_thousands.simps) (simp add: read_digits_digits)
  next
    case False
    have "read_digits 0 (group_thousands n) =
        read_digits (read_digits 0 (group_thousands (n div 1000))) (pad3 (n mod 1000))"
      using False
      by (subst group_thousands.simps) (simp add: read_digits_append read_digits_separator)
    also have "\<dots> = 1000 * (n div 1000) + n mod 1000"
      using "1.IH" [OF False] by (simp add: read_digits_pad3)
    finally show ?thesis by simp
  qed
qed

lemma read_cents_format:
  assumes "0 \<le> p"
  shows "read_cents (''$'' @ format_comma_2f (Fin p)) = nat (round_half_even (p * 100))"
proof -
  define c where "c = nat (round_half_even (p * 100))"
  have fmt: "format_comma_2f (Fin p) =
      group_thousands (c div 100) @ CHR ''.'' #
      [digit_char (c div 10 mod 10), digit_char (c mod 10)]"
    using assms by (simp add: c_def Let_def)
  have "read_cents (''$'' @ format_comma_2f (Fin p)) =
      read_digits (c div 100) [digit_char (c div 10 mod 10), digit_char (c mod 10)]"
    unfolding fmt read_cents_def
    by (simp add: read_digits_separator read_digits_append read_digits_group_thousands)
  also have "\<dots> = 100 * (c div 100) + c mod 100"
    by (simp add: read_digits_two mod_100)
  finally show ?thesis by (simp add: c_def)
qed

subsection \<open>Predictions of a forest\<close>

lemma mean_nonneg: "\<forall>x \<in> set xs. 0 \<le> x \<Longrightarrow> 0 \<le> mean xs"
  by (simp add: mean_def sum_list_nonneg)

lemma leaf_value_nonneg: "\<forall>y \<in> set ys. 0 \<le> y \<Longrightarrow> leaf_value ys v \<Longrightarrow> 0 \<le> v"
  by (auto simp: leaf_value_def intro!: mean_nonneg)

lemma forest_prediction_nonneg:
  "\<forall>y \<in> set ys. 0 \<le> y \<Longrightarrow> forest_prediction ys p \<Longrightarrow> 0 \<le> p"
  by (auto simp: forest_prediction_def list_all_iff intro!: mean_nonneg dest: leaf_value_nonneg)

section \<open>The served prediction\<close>

lemma valid_submission_numbers:
  assumes "valid_submission [b, ba, s, f, w, v]"
  shows "\<exists>b' ba' s' f' w' v'. b = PyNum b' \<and> ba = PyNum ba' \<and> s = PyNum s' \<and> f = PyNum f' \<and>
           w = PyNum w' \<and> v = PyNum v' \<and> 1 \<le> ba'"
  using assms
  by (auto simp: valid_submission_def layout_def valid_value_def split: pyval.splits)

lemma input_data_numbers:
  assumes "ba \<noteq> 0"
  shows "input_data (PyNum b) (PyNum ba) (PyNum s) (PyNum f) (PyNum w) (PyNum v) =
     Inr [(''bedrooms'', NumCol [Fin b]), (''bathrooms'', NumCol [Fin ba]),
          (''sqft_living'', NumCol [Fin s]), (''floors'', NumCol [Fin f]),
          (''waterfront'', NumCol [Fin w]), (''view'', NumCol [Fin v]),
          (''bedrooms_to_bathrooms_ratio'', NumCol [Fin (b / ba)]),
          (''price_per_sqft'', NumCol [Fin 0]),
          (''bedrooms_bathrooms_interaction'', NumCol [Fin (b * ba)])]"
  using assms by (simp add: input_data_def py_truediv_def py_mul_def)

lemma update_output_clicked:
  assumes "0 < n" and "rf_reg nb = Some (e, m)"
  shows "update_output lib nb n b ba s f w v =
     bind_err (input_data b ba s f w v) (\<lambda>inp.
     bind_err (predict lib m inp) (\<lambda>preds.
     bind_err (first preds) (\<lambda>p.
       Inr (Some (Div (''Predicted Price: $'' @ format_comma_2f p)
                      [(''font-weight'', ''bold'')])))))"
  using assms by (simp add: update_output_def)

text \<open>
  Claim C8.  Let the notebook have run on a file with the raw schema, with a library
  whose forest and split keep their promises, and let the training prices be
  non-negative numbers.  After a click, for form values that respect the bounds and
  steps of the layout, the callback builds its frame without an error and obtains from
  \<^verbatim>\<open>rf_reg\<close> exactly one prediction \<open>p\<close>, a non-negative number.  It returns the
  text \<^verbatim>\<open>Predicted Price: $\<close> followed by \<open>p\<close> with comma-separated thousands and
  two decimals, and the digits of that text are \<open>p\<close> rounded to cents.
\<close>

theorem update_output_currency:
  assumes "run_notebook lib to_datetime csv = Inr nb"
    and "columns csv = raw_columns"
    and "split_keeps_columns lib" and "forest_library lib"
    and "y_train nb = NumCol (map Fin prices)" and "\<forall>y \<in> set prices. 0 \<le> y"
    and "0 < n_clicks"
    and "valid_submission [bedrooms, bathrooms, sqft_living, floors, waterfront, view]"
  shows "\<exists>m inp p.
           rf_reg nb = Some (default_forest, m) \<and>
           fit lib default_forest (X_train nb) (NumCol (map Fin prices)) = Inr m \<and>
           input_data bedrooms bathrooms sqft_living floors waterfront view = Inr inp \<and>
           predict lib m inp = Inr [Fin p] \<and> 0 \<le> p \<and>
           is_currency (''$'' @ format_comma_2f (Fin p)) \<and>
           read_cents (''$'' @ format_comma_2f (Fin p)) = nat (round_half_even (p * 100)) \<and>
           update_output lib nb n_clicks bedrooms bathrooms sqft_living floors waterfront view =
             Inr (Some (Div (''Predicted Price: $'' @ format_comma_2f (Fin p))
                            [(''font-weight'', ''bold'')]))"
proof -
  from run_notebook_state [OF assms(1)] obtain m where
    reg: "rf_reg nb = Some (default_forest, m)" and
    fit: "fit lib default_forest (X_train nb) (y_train nb) = Inr m" and
    split: "train_test_split lib (X_all nb) (y_all nb) (2 / 10) 42 =
      Inr (X_train nb, X_test nb, y_train nb, y_test nb)"
    by blast
  from assms(3) split have "columns (X_train nb) = columns (X_all nb)"
    unfolding split_keeps_columns_def by blast
  then have train: "columns (X_train nb) = feature_columns"
    using run_notebook_feature_columns [OF assms(1,2)] by simp
  from valid_submission_numbers [OF assms(8)] obtain b ba s f w v where
    nums: "bedrooms = PyNum b" "bathrooms = PyNum ba" "sqft_living = PyNum s"
      "floors = PyNum f" "waterfront = PyNum w" "view = PyNum v" and ba: "1 \<le> ba"
    by blast
  from ba have "ba \<noteq> 0" by simp
  note inp = input_data_numbers [OF this, of b s f w v]
  define row where "row = [(''bedrooms'', NumCol [Fin b]), (''bathrooms'', NumCol [Fin ba]),
          (''sqft_living'', NumCol [Fin s]), (''floors'', NumCol [Fin f]),
          (''waterfront'', NumCol [Fin w]), (''view'', NumCol [Fin v]),
          (''bedrooms_to_bathrooms_ratio'', NumCol [Fin (b / ba)]),
          (''price_per_sqft'', NumCol [Fin 0]),
          (''bedrooms_bathrooms_interaction'', NumCol [Fin (b * ba)])]"
  have "columns row = feature_columns"
    by (simp add: row_def columns_def feature_columns_def raw_features_def)
  then have row: "row \<noteq> []" "columns row = columns (X_train nb)" "single_numeric_row row"
    by (simp_all add: train) (simp_all add: row_def single_numeric_row_def)
  have fit': "fit lib (RandomForestRegressor
        \<lparr>n_estimators = None, max_depth = None, random_state = Some 42\<rparr>)
      (X_train nb) (NumCol (map Fin prices)) = Inr m"
    using fit by (simp add: assms(5) default_forest_def)
  from assms(4) fit' row obtain p where
    p: "predict lib m row = Inr [Fin p]" and forest: "forest_prediction prices p"
    unfolding forest_library_def by blast
  have nonneg: "0 \<le> p"
    by (rule forest_prediction_nonneg [OF assms(6) forest])
  have served: "update_output lib nb n_clicks bedrooms bathrooms sqft_living floors waterfront view =
      Inr (Some (Div (''Predicted Price: $'' @ format_comma_2f (Fin p))
                     [(''font-weight'', ''bold'')]))"
    unfolding update_output_clicked [OF assms(7) reg] nums inp row_def [symmetric]
    by (simp add: p first_def)
  have fitted: "fit lib default_forest (X_train nb) (NumCol (map Fin prices)) = Inr m"
    using fit by (simp add: assms(5))
  from reg fitted inp p nonneg is_currency_format [OF nonneg] read_cents_format [OF nonneg] served
  show ?thesis
    unfolding nums row_def [symmetric] by blast
qed

subsection \<open>The sample notebook at work\<close>

lemma digits_small: "n < 10 \<Longrightarrow> digits n = [digit_char n]"
  by (subst digits.simps) simp

lemma digits_large: "\<not> n < 10 \<Longrightarrow> digits n = digits (n div 10) @ [digit_char (n mod 10)]"
  by (subst digits.simps) simp

lemma group_thousands_small: "n < 1000 \<Longrightarrow> group_thousands n = digits n"
  by (subst group_thousands.simps) simp

lemma group_thousands_large:
  "\<not> n < 1000 \<Longrightarrow> group_thousands n = group_thousands (n div 1000) @ '','' @ pad3 (n mod 1000)"
  by (subst group_thousands.simps) simp

lemma group_thousands_example: "group_thousands 375000 = ''375,000''"
  by (simp add: group_thousands_small group_thousands_large
        digits_small digits_large pad3_def digit_char_def)

lemma round_half_even_example: "round_half_even 37500000 = 37500000"
  by (simp add: round_half_even_def Let_def)

lemma format_example: "format_comma_2f (Fin 375000) = ''375,000.00''"
  by (simp add: Let_def round_half_even_example group_thousands_example digit_char_def)

lemma example_rf_reg:
  "map_sum id rf_reg (run_notebook toy_sklearn Inr example_csv) =
     Inr (Some (default_forest, (default_forest, [300000, 200000, 400000, 600000])))"
  by code_simp

lemma example_best_estimator:
  "map_sum id (\<lambda>nb. map_option best_estimator (model nb))
     (run_notebook toy_sklearn Inr example_csv) =
     Inr (Some (Some (grid_pipeline 50 20, [300000, 200000, 400000, 600000])))"
  by code_simp

lemma example_submission:
  "valid_submission [PyNum 3, PyNum 2, PyNum 1500, PyNum 1, PyNum 0, PyNum 0]"
  by code_simp

lemma toy_predict_plain:
  "frame_len inp = 1 \<Longrightarrow>
   predict toy_sklearn (default_forest, [300000, 200000, 400000, 600000]) inp = Inr [Fin 375000]"
  by (simp add: toy_sklearn_def toy_predict_def toy_trees_def default_forest_def)

lemma toy_predict_tuned:
  "frame_len inp = 1 \<Longrightarrow>
   predict toy_sklearn (grid_pipeline 50 20, [300000, 200000, 400000, 600000]) inp =
     Inr [Fin 375050]"
  by (simp add: toy_sklearn_def toy_predict_def toy_trees_def grid_pipeline_def)

lemma example_served_value:
  assumes "0 < n"
  shows "example_served n =
     Inr (Some (Div ''Predicted Price: $375,000.00'' [(''font-weight'', ''bold'')]))"
proof -
  from example_notebook obtain nb where run: "run_notebook toy_sklearn Inr example_csv = Inr nb" ..
  with example_rf_reg have
    reg: "rf_reg nb = Some (default_forest, (default_forest, [300000, 200000, 400000, 600000]))"
    by simp
  show ?thesis
    unfolding example_served_def run bind_err_Inr update_output_clicked [OF assms reg] example_input
    by (simp add: toy_predict_plain frame_len_def first_def format_example
          del: format_comma_2f.simps)
qed

lemma example_tuned_value: "example_tuned = Inr [Fin 375050]"
proof -
  from example_notebook obtain nb where run: "run_notebook toy_sklearn Inr example_csv = Inr nb" ..
  with example_best_estimator obtain g where
    "model nb = Some g" "best_estimator g = Some (grid_pipeline 50 20, [300000, 200000, 400000, 600000])"
    by auto
  then show ?thesis
    unfolding example_tuned_def run bind_err_Inr example_input
    by (simp add: toy_predict_tuned frame_len_def)
qed

subsection \<open>The second sample notebook\<close>

lemma finite_values_Fin: "finite_values (map Fin ys) = ys"
  by (induction ys) simp_all

lemma mean_single: "mean [v] = v"
  by (simp add: mean_def)

lemma frame_len_single:
  assumes "inp \<noteq> []" "single_numeric_row inp"
  shows "frame_len inp = 1"
proof -
  from assms(1) obtain k c rest where inp: "inp = (k, c) # rest"
    by (cases inp) auto
  from assms(2) have "case c of NumCol [Fin x] \<Rightarrow> True | _ \<Rightarrow> False"
    by (simp add: single_numeric_row_def inp)
  then have "col_len c = 1"
    by (auto split: column.splits list.splits fval.splits)
  then show ?thesis
    by (simp add: frame_len_def inp)
qed

lemma mean_sklearn_forest: "forest_library mean_sklearn"
  unfolding forest_library_def
proof (intro allI impI)
  fix ps Xs ys and m :: "estimator \<times> rat list" and inp
  assume a: "fit mean_sklearn (RandomForestRegressor ps) Xs (NumCol (map Fin ys)) = Inr m \<and>
      inp \<noteq> [] \<and> columns inp = columns Xs \<and> single_numeric_row inp"
  then have m: "snd m = ys" and ys: "ys \<noteq> []"
    by (auto simp: mean_sklearn_def mean_fit_def finite_values_Fin split: if_splits)
  from a have "frame_len inp = 1"
    using frame_len_single by blast
  then have pred: "predict mean_sklearn m inp = Inr [Fin (mean ys)]"
    by (simp add: mean_sklearn_def mean_predict_def m)
  have "leaf_value ys (mean ys)"
    unfolding leaf_value_def using ys by blast
  then have "forest_prediction ys (mean ys)"
    unfolding forest_prediction_def
    by (intro exI [of _ "[mean ys]"]) (simp add: mean_single)
  with pred show "\<exists>p. predict mean_sklearn m inp = Inr [Fin p] \<and> forest_prediction ys p"
    by blast
qed

lemma columns_take_col: "columns (map (\<lambda>(name, c). (name, f c)) Xs) = columns Xs"
  by (simp add: columns_def case_prod_unfold comp_def)

lemma mean_sklearn_split: "split_keeps_columns mean_sklearn"
  unfolding split_keeps_columns_def
  by (auto simp: mean_sklearn_def toy_sklearn_def toy_split_def Let_def columns_take_col)

lemma mean_notebook_runs: "\<not> isl (run_notebook mean_sklearn Inr example_csv)"
  by code_simp

lemma mean_notebook_prices:
  "map_sum id y_train (run_notebook mean_sklearn Inr example_csv) =
     Inr (NumCol (map Fin [300000, 200000, 400000, 600000]))"
  by code_simp

lemma mean_example: "mean [300000, 200000, 400000, 600000] = 375000"
  by (simp add: mean_def)

theorem update_output_currency_witness:
  "columns example_csv = raw_columns \<and> split_keeps_columns mean_sklearn \<and>
   forest_library mean_sklearn \<and>
   valid_submission [PyNum 3, PyNum 2, PyNum 1500, PyNum 1, PyNum 0, PyNum 0] \<and>
   (\<exists>nb. run_notebook mean_sklearn Inr example_csv = Inr nb \<and>
      y_train nb = NumCol (map Fin [300000, 200000, 400000, 600000]) \<and>
      update_output mean_sklearn nb 1 (PyNum 3) (PyNum 2) (PyNum 1500) (PyNum 1) (PyNum 0) (PyNum 0) =
        Inr (Some (Div ''Predicted Price: $375,000.00'' [(''font-weight'', ''bold'')])))"
proof -
  from mean_notebook_runs obtain nb where run: "run_notebook mean_sklearn Inr example_csv = Inr nb"
    by (cases "run_notebook mean_sklearn Inr example_csv") auto
  with mean_notebook_prices have
    prices: "y_train nb = NumCol (map Fin [300000, 200000, 400000, 600000])"
    by simp
  have nonneg: "\<forall>y \<in> set [300000, 200000, 400000, 600000 :: rat]. 0 \<le> y"
    by simp
  have one: "(0 :: int) < 1" by simp
  from update_output_currency [OF run example_columns mean_sklearn_split mean_sklearn_forest
      prices nonneg one example_submission]
  obtain m inp p where
    fit: "fit mean_sklearn default_forest (X_train nb)
      (NumCol (map Fin [300000, 200000, 400000, 600000])) = Inr m" and
    inp: "input_data (PyNum 3) (PyNum 2) (PyNum 1500) (PyNum 1) (PyNum 0) (PyNum 0) = Inr inp" and
    p: "predict mean_sklearn m inp = Inr [Fin p]" and
    served: "update_output mean_sklearn nb 1 (PyNum 3) (PyNum 2) (PyNum 1500) (PyNum 1) (PyNum 0)
        (PyNum 0) =
      Inr (Some (Div (''Predicted Price: $'' @ format_comma_2f (Fin p))
                     [(''font-weight'', ''bold'')]))"
    by blast
  from fit have "snd m = [300000, 200000, 400000, 600000]"
    by (auto simp: mean_sklearn_def mean_fit_def split: if_splits)
  with p have "p = 375000"
    by (simp add: mean_sklearn_def mean_predict_def mean_example split: if_splits)
      (metis Cons_replicate_eq fval.inject)
  then have "''Predicted Price: $'' @ format_comma_2f (Fin p) = ''Predicted Price: $375,000.00''"
    by (simp add: format_example del: format_comma_2f.simps)
  with served run prices show ?thesis
    using example_columns mean_sklearn_split mean_sklearn_forest example_submission
    by auto
qed

text \<open>
  Claim C9.  With the fitted models and the six form values fixed, the callback
  returns the same result at every positive click count: two submissions of the same
  values give the same price string.
\<close>

theorem update_output_deterministic:
  assumes "0 < n1" and "0 < n2"
  shows "update_output lib nb n1 bedrooms bathrooms sqft_living floors waterfront view =
         update_output lib nb n2 bedrooms bathrooms sqft_living floors waterfront view"
  using assms by (simp add: update_output_def)

theorem update_output_deterministic_witness:
  "(0 :: int) < 1 \<and> (0 :: int) < 2 \<and> example_served 1 = example_served 2 \<and>
   example_served 2 =
     Inr (Some (Div ''Predicted Price: $375,000.00'' [(''font-weight'', ''bold'')]))"
proof -
  from example_notebook obtain nb where run: "run_notebook toy_sklearn Inr example_csv = Inr nb" ..
  have one: "(0 :: int) < 1" and two: "(0 :: int) < 2" by simp_all
  have "example_served 1 = example_served 2"
    unfolding example_served_def run bind_err_Inr
    by (rule update_output_deterministic [OF one two])
  with example_served_value [OF two] show ?thesis by simp
qed

text \<open>
  Claim C10.  After a run of the notebook, \<^verbatim>\<open>rf_reg\<close> is the plain forest with seed
  42, no pipeline around it and no grid parameter set, fitted on the training part of
  the second split.  After a click the callback formats the first prediction of that
  model for the frame it built; replacing the pipeline \<^verbatim>\<open>rf\<close> or the grid search
  \<^verbatim>\<open>model\<close> by anything else does not change what it returns.
\<close>

theorem update_output_serves_rf_reg:
  assumes "run_notebook lib to_datetime csv = Inr nb" and "0 < n_clicks"
  shows "\<exists>m. rf_reg nb =
             Some (RandomForestRegressor
                     \<lparr>n_estimators = None, max_depth = None, random_state = Some 42\<rparr>, m) \<and>
           fit lib (RandomForestRegressor
                     \<lparr>n_estimators = None, max_depth = None, random_state = Some 42\<rparr>)
             (X_train nb) (y_train nb) = Inr m \<and>
           train_test_split lib (X_all nb) (y_all nb) (2 / 10) 42 =
             Inr (X_train nb, X_test nb, y_train nb, y_test nb) \<and>
           update_output lib nb n_clicks bedrooms bathrooms sqft_living floors waterfront view =
             bind_err (input_data bedrooms bathrooms sqft_living floors waterfront view) (\<lambda>inp.
             bind_err (predict lib m inp) (\<lambda>preds.
             bind_err (first preds) (\<lambda>p.
               Inr (Some (Div (''Predicted Price: $'' @ format_comma_2f p)
                              [(''font-weight'', ''bold'')]))))) \<and>
           (\<forall>r g. update_output lib (nb\<lparr>rf := r, model := g\<rparr>) n_clicks
                     bedrooms bathrooms sqft_living floors waterfront view =
                   update_output lib nb n_clicks
                     bedrooms bathrooms sqft_living floors waterfront view)"
proof -
  from run_notebook_state [OF assms(1)] obtain m where
    reg: "rf_reg nb = Some (default_forest, m)" and
    fit: "fit lib default_forest (X_train nb) (y_train nb) = Inr m" and
    split: "train_test_split lib (X_all nb) (y_all nb) (2 / 10) 42 =
      Inr (X_train nb, X_test nb, y_train nb, y_test nb)"
    by blast
  have "update_output lib (nb\<lparr>rf := r, model := g\<rparr>) n_clicks
          bedrooms bathrooms sqft_living floors waterfront view =
        update_output lib nb n_clicks bedrooms bathrooms sqft_living floors waterfront view"
    for r g
    by (simp add: update_output_def)
  with reg fit split update_output_clicked [OF assms(2) reg] show ?thesis
    unfolding default_forest_def by blast
qed

theorem update_output_serves_rf_reg_witness:
  "example_served 1 =
     Inr (Some (Div ''Predicted Price: $375,000.00'' [(''font-weight'', ''bold'')])) \<and>
   example_tuned = Inr [Fin 375050] \<and>
   (\<exists>nb m. run_notebook toy_sklearn Inr example_csv = Inr nb \<and>
      rf_reg nb = Some (RandomForestRegressor
                     \<lparr>n_estimators = None, max_depth = None, random_state = Some 42\<rparr>, m) \<and>
      fit toy_sklearn (RandomForestRegressor
                     \<lparr>n_estimators = None, max_depth = None, random_state = Some 42\<rparr>)
        (X_train nb) (y_train nb) = Inr m)"
proof -
  from example_notebook obtain nb where run: "run_notebook toy_sklearn Inr example_csv = Inr nb" ..
  have one: "(0 :: int) < 1" by simp
  from update_output_serves_rf_reg [OF run one] run
  show ?thesis
    using example_served_value [OF one] example_tuned_value by blast
qed

end
